theory Spec2Isabelle
  imports Main "HOL-Library.Sublist" "HOL-Library.AList" "HOL-Library.Log_Nat"
begin

section \<open>Python values used by the scoring engine\<close>

subsection \<open>Strings\<close>

text \<open>
  A Python \<open>str\<close> is a sequence of Unicode code points, so a string is a list of natural
  numbers. \<open>S\<close> turns an ASCII literal into such a list.
\<close>

type_synonym pystr = "nat list"

definition S :: "string \<Rightarrow> pystr" where
  "S s = map of_char s"

text \<open>\<open>startswith t k\<close> is Python's \<open>t.startswith(k)\<close>; \<open>is_in k t\<close> is \<open>k in t\<close>.\<close>

fun startswith :: "pystr \<Rightarrow> pystr \<Rightarrow> bool" where
  "startswith t [] = True"
| "startswith [] (k # ks) = False"
| "startswith (c # cs) (k # ks) = (c = k \<and> startswith cs ks)"

fun is_in :: "pystr \<Rightarrow> pystr \<Rightarrow> bool" where
  "is_in k [] = (k = [])"
| "is_in k (c # cs) = (startswith (c # cs) k \<or> is_in k cs)"

text \<open>
  The code points for which \<open>str.isspace\<close> holds; the class \<open>\s\<close> of the module \<open>re\<close> on a
  \<open>str\<close> pattern and the separator of \<open>str.split()\<close> are the same set.
\<close>

definition isspace :: "nat \<Rightarrow> bool" where
  "isspace c \<longleftrightarrow>
     (9 \<le> c \<and> c \<le> 13) \<or> (28 \<le> c \<and> c \<le> 32) \<or> c = 133 \<or> c = 160 \<or> c = 5760 \<or>
     (8192 \<le> c \<and> c \<le> 8202) \<or> c = 8232 \<or> c = 8233 \<or> c = 8239 \<or> c = 8287 \<or> c = 12288"

definition is_upper_az :: "nat \<Rightarrow> bool" where
  "is_upper_az c \<longleftrightarrow> 65 \<le> c \<and> c \<le> 90"

definition is_lower_az :: "nat \<Rightarrow> bool" where
  "is_lower_az c \<longleftrightarrow> 97 \<le> c \<and> c \<le> 122"

text \<open>
  \<open>str.lower\<close> is a built-in of the language, defined by the Unicode tables. Every function
  below that calls it takes it as the parameter \<open>lower\<close>. \<open>ascii_lower\<close> is what it does on
  ASCII text.
\<close>

definition ascii_lower :: "pystr \<Rightarrow> pystr" where
  "ascii_lower s = map (\<lambda>c. if is_upper_az c then c + 32 else c) s"

text \<open>\<open>str.split()\<close> without arguments: the maximal runs of non-whitespace code points.\<close>

fun split_ws :: "pystr \<Rightarrow> pystr \<Rightarrow> pystr list" where
  "split_ws cur [] = (if cur = [] then [] else [cur])"
| "split_ws cur (c # cs) =
     (if isspace c then (if cur = [] then split_ws [] cs else cur # split_ws [] cs)
      else split_ws (cur @ [c]) cs)"

definition split :: "pystr \<Rightarrow> pystr list" where
  "split s = split_ws [] s"

subsection \<open>Floats\<close>

text \<open>
  A Python \<open>float\<close> is an IEEE 754 binary64 number. A finite float is modelled by the rational
  it denotes; \<open>fround\<close> rounds a rational to the nearest number with a 53-bit significand,
  ties to the even significand, which is what a float literal, a float operation and the
  conversion of an \<open>int\<close> do. The exponent is not bounded: the values of this program lie
  far inside the normal range of binary64.
\<close>

definition pow2 :: "int \<Rightarrow> rat" where
  "pow2 e = (if 0 \<le> e then 2 ^ nat e else 1 / 2 ^ nat (- e))"

definition rne :: "rat \<Rightarrow> int" where
  "rne x = (let f = \<lfloor>x\<rfloor>; d = x - of_int f
            in if d < 1 / 2 then f else if 1 / 2 < d then f + 1
               else if even f then f else f + 1)"

text \<open>For \<open>0 < x\<close>, \<open>ilog2 x\<close> is the \<open>k\<close> with \<open>2 ^ k \<le> x < 2 ^ (k + 1)\<close>.\<close>

definition ilog2 :: "rat \<Rightarrow> int" where
  "ilog2 x = (if 1 \<le> x then int (floorlog 2 (nat \<lfloor>x\<rfloor>)) - 1
              else - int (floorlog 2 (nat (\<lceil>1 / x\<rceil> - 1))))"

definition fround :: "rat \<Rightarrow> rat" where
  "fround x = (if x = 0 then 0
               else let e = ilog2 \<bar>x\<bar> - 52
                    in sgn x * of_int (rne (\<bar>x\<bar> / pow2 e)) * pow2 e)"

definition fmul :: "rat \<Rightarrow> rat \<Rightarrow> rat" where
  "fmul a b = fround (a * b)"

definition fadd :: "rat \<Rightarrow> rat \<Rightarrow> rat" where
  "fadd a b = fround (a + b)"

text \<open>True division of two \<open>int\<close>s, correctly rounded; the divisor here is the constant 5.\<close>

definition int_truediv :: "int \<Rightarrow> int \<Rightarrow> rat" where
  "int_truediv a b = fround (of_int a / of_int b)"

text \<open>
  \<open>format(x, '.1f')\<close>: the exact value of the float, rounded half-even to one decimal.
\<close>

fun str_nat :: "nat \<Rightarrow> pystr" where
  "str_nat n = (if n < 10 then [48 + n] else str_nat (n div 10) @ [48 + n mod 10])"

declare str_nat.simps [simp del]

definition format_1f :: "rat \<Rightarrow> pystr" where
  "format_1f x = (let n = nat (rne (\<bar>x\<bar> * 10))
                  in (if x < 0 then [45] else []) @ str_nat (n div 10) @ [46] @ [48 + n mod 10])"

subsection \<open>Exceptions\<close>

text \<open>
  The exceptions that the code can raise under \<open>except Exception\<close>: a missing dictionary
  key, an index out of range, an attribute of \<open>None\<close>, and whatever a trained artifact raises.
\<close>

datatype exn = KeyError pystr | IndexError | AttributeError | ArtifactError nat

definition bind :: "exn + 'a \<Rightarrow> ('a \<Rightarrow> exn + 'b) \<Rightarrow> exn + 'b" where
  "bind r f = (case r of Inl e \<Rightarrow> Inl e | Inr v \<Rightarrow> f v)"

text \<open>\<open>item0 xs\<close> is \<open>xs[0]\<close>.\<close>

fun item0 :: "'a list \<Rightarrow> exn + 'a" where
  "item0 [] = Inl IndexError"
| "item0 (x # xs) = Inr x"

section \<open>The scorer\<close>

subsection \<open>State\<close>

text \<open>
  The attributes of \<open>SustainabilityScorer\<close> that scoring reads or writes. The three artifacts
  are opaque: \<open>vectorizer.transform\<close>, \<open>model.predict\<close> and
  \<open>label_encoder.inverse_transform\<close> are functions that return a value or raise. The three
  entries of the dictionary \<open>stats\<close> are fields of their own.
\<close>

record ('x, 'p) scorer =
  model :: "('x \<Rightarrow> exn + 'p list) option"
  vectorizer :: "(pystr list \<Rightarrow> exn + 'x) option"
  label_encoder :: "('p list \<Rightarrow> exn + pystr list) option"
  total_predictions :: nat
  grade_distribution :: "(pystr \<times> nat) list"
  categories_processed :: "pystr set"

definition init :: "('x, 'p) scorer" where
  "init = \<lparr> model = None, vectorizer = None, label_encoder = None,
            total_predictions = 0,
            grade_distribution = [(S ''A'', 0), (S ''B'', 0), (S ''C'', 0), (S ''D'', 0), (S ''E'', 0)],
            categories_processed = {} \<rparr>"

subsection \<open>Lexicon\<close>

definition sustainability_keywords :: "(pystr \<times> pystr list) list" where
  "sustainability_keywords =
    [(S ''excellent'', map S [''organic'', ''sustainable'', ''eco-friendly'', ''recycled'', ''bamboo'',
        ''hemp'', ''fair trade'', ''carbon neutral'', ''biodegradable'', ''renewable'', ''solar'',
        ''wind power'', ''upcycled'', ''zero waste'', ''compostable'']),
     (S ''good'', map S [''recyclable'', ''energy efficient'', ''minimal packaging'', ''local'',
        ''natural'', ''reusable'', ''durable'', ''long-lasting'', ''refillable'', ''plant-based'']),
     (S ''average'', map S [''standard'', ''conventional'', ''regular'', ''basic'', ''economy'']),
     (S ''poor'', map S [''disposable'', ''single-use'', ''plastic'', ''non-recyclable'', ''petroleum'',
        ''synthetic'', ''chemical'', ''artificial'', ''fast fashion'', ''cheap'']),
     (S ''very_poor'', map S [''toxic'', ''harmful'', ''wasteful'', ''polluting'', ''destructive'',
        ''non-biodegradable'', ''excessive packaging'', ''planned obsolescence''])]"

definition category_multipliers :: "(pystr \<times> rat) list" where
  "category_multipliers =
    [(S ''electronics'', fround (8 / 10)), (S ''clothing'', fround (9 / 10)),
     (S ''food'', fround (11 / 10)), (S ''home'', fround 1), (S ''beauty'', fround (95 / 100)),
     (S ''toys'', fround (85 / 100)), (S ''books'', fround (105 / 100)),
     (S ''automotive'', fround (7 / 10)), (S ''garden'', fround (12 / 10)),
     (S ''health'', fround 1)]"

subsection \<open>Category detection\<close>

definition category_keywords :: "(pystr \<times> pystr list) list" where
  "category_keywords =
    [(S ''electronics'', map S [''phone'', ''laptop'', ''computer'', ''tablet'', ''headphones'',
        ''speaker'', ''tv'', ''camera'']),
     (S ''clothing'', map S [''shirt'', ''t-shirt'', ''dress'', ''pants'', ''jeans'', ''jacket'',
        ''shoes'', ''sneakers'', ''sweater'']),
     (S ''food'', map S [''organic'', ''snack'', ''coffee'', ''tea'', ''chocolate'', ''nuts'',
        ''supplement'', ''vitamin'']),
     (S ''home'', map S [''furniture'', ''chair'', ''table'', ''lamp'', ''decor'', ''pillow'',
        ''blanket'', ''storage'']),
     (S ''beauty'', map S [''moisturizer'', ''shampoo'', ''soap'', ''lotion'', ''cream'', ''oil'',
        ''cosmetic'', ''perfume'']),
     (S ''toys'', map S [''toy'', ''game'', ''puzzle'', ''doll'', ''action figure'', ''board game'',
        ''educational'']),
     (S ''books'', map S [''book'', ''novel'', ''textbook'', ''journal'', ''notebook'', ''diary'',
        ''manual'']),
     (S ''automotive'', map S [''car'', ''auto'', ''vehicle'', ''tire'', ''oil'', ''brake'', ''engine'',
        ''battery'']),
     (S ''garden'', map S [''plant'', ''seed'', ''fertilizer'', ''tool'', ''garden'', ''lawn'',
        ''outdoor'', ''solar'']),
     (S ''health'', map S [''medical'', ''health'', ''fitness'', ''exercise'', ''yoga'', ''protein'',
        ''supplement''])]"

text \<open>
  The inner loop of \<open>_detect_category\<close>: does some keyword of the list occur in the title?
  The outer loop returns the category of the first list for which it does.
\<close>

fun keyword_loop :: "pystr list \<Rightarrow> pystr \<Rightarrow> bool" where
  "keyword_loop [] title_lower = False"
| "keyword_loop (keyword # keywords) title_lower =
     (if is_in keyword title_lower then True else keyword_loop keywords title_lower)"

fun category_loop :: "(pystr \<times> pystr list) list \<Rightarrow> pystr \<Rightarrow> pystr option" where
  "category_loop [] title_lower = None"
| "category_loop ((category, keywords) # rest) title_lower =
     (if keyword_loop keywords title_lower then Some category
      else category_loop rest title_lower)"

definition detect_category :: "('x, 'p) scorer \<Rightarrow> pystr \<Rightarrow> pystr \<times> ('x, 'p) scorer" where
  "detect_category sc title_lower =
     (case category_loop category_keywords title_lower of
        Some category \<Rightarrow>
          (category, sc\<lparr>categories_processed := insert category (categories_processed sc)\<rparr>)
      | None \<Rightarrow> (S ''other'', sc))"

text \<open>The description of the detector in the specification: the first entry that matches.\<close>

definition matches :: "pystr \<Rightarrow> pystr \<times> pystr list \<Rightarrow> bool" where
  "matches title_lower entry \<longleftrightarrow> (\<exists>keyword \<in> set (snd entry). is_in keyword title_lower)"

subsection \<open>Feature extraction\<close>

text \<open>
  The body of the loop of \<open>prepare_features\<close>:
  \<^verbatim>\<open>re.sub(r'[^a-zA-Z\s]', '', str(title).lower())\<close>, on a title that is a \<open>str\<close>.
\<close>

definition cleaned :: "(pystr \<Rightarrow> pystr) \<Rightarrow> pystr \<Rightarrow> pystr" where
  "cleaned lower title =
     filter (\<lambda>c. is_lower_az c \<or> is_upper_az c \<or> isspace c) (lower title)"

definition prepare_features :: "(pystr \<Rightarrow> pystr) \<Rightarrow> pystr list \<Rightarrow> pystr list" where
  "prepare_features lower product_titles = map (cleaned lower) product_titles"

subsection \<open>Rule-based grading\<close>

definition tier_step :: "pystr \<Rightarrow> int \<Rightarrow> int" where
  "tier_step category score =
     (if category = S ''excellent'' then score + 20
      else if category = S ''good'' then score + 10
      else if category = S ''average'' then score + 0
      else if category = S ''poor'' then score - 10
      else if category = S ''very_poor'' then score - 20
      else score)"

fun score_keywords :: "pystr \<Rightarrow> pystr list \<Rightarrow> pystr \<Rightarrow> int \<Rightarrow> int" where
  "score_keywords category [] title_lower score = score"
| "score_keywords category (keyword # keywords) title_lower score =
     score_keywords category keywords title_lower
       (if is_in keyword title_lower then tier_step category score else score)"

fun score_tiers :: "(pystr \<times> pystr list) list \<Rightarrow> pystr \<Rightarrow> int \<Rightarrow> int" where
  "score_tiers [] title_lower score = score"
| "score_tiers ((category, keywords) # rest) title_lower score =
     score_tiers rest title_lower (score_keywords category keywords title_lower score)"

definition grade_of_score :: "rat \<Rightarrow> pystr" where
  "grade_of_score score =
     (if 80 \<le> score then S ''A''
      else if 65 \<le> score then S ''B''
      else if 45 \<le> score then S ''C''
      else if 30 \<le> score then S ''D''
      else S ''E'')"

text \<open>
  \<open>score\<close> is an \<open>int\<close> until \<open>score *= multiplier\<close> makes it a float; for the category
  \<open>other\<close>, which has no multiplier, it stays the \<open>int\<close>.
\<close>

definition score_with_rules ::
  "(pystr \<Rightarrow> pystr) \<Rightarrow> ('x, 'p) scorer \<Rightarrow> pystr \<Rightarrow> pystr \<times> ('x, 'p) scorer" where
  "score_with_rules lower sc product_title =
     (let title_lower = lower product_title;
          score = score_tiers sustainability_keywords title_lower 50;
          (category, sc') = detect_category sc title_lower;
          score' = (case map_of category_multipliers category of
                      Some multiplier \<Rightarrow> fmul (of_int score) multiplier
                    | None \<Rightarrow> of_int score)
      in (grade_of_score score', sc'))"

subsection \<open>Model-based grading\<close>

text \<open>The body of the \<open>try\<close> of \<open>_score_with_model\<close>.\<close>

definition model_pipeline :: "(pystr \<Rightarrow> pystr) \<Rightarrow> ('x, 'p) scorer \<Rightarrow> pystr \<Rightarrow> exn + pystr" where
  "model_pipeline lower sc product_title =
     (let features = prepare_features lower [product_title]
      in bind (case vectorizer sc of None \<Rightarrow> Inl AttributeError
               | Some transform \<Rightarrow> transform features) (\<lambda>X_tfidf.
         bind (case model sc of None \<Rightarrow> Inl AttributeError
               | Some predict \<Rightarrow> predict X_tfidf) (\<lambda>predictions.
         bind (item0 predictions) (\<lambda>prediction.
         bind (case label_encoder sc of None \<Rightarrow> Inl AttributeError
               | Some inverse_transform \<Rightarrow> inverse_transform [prediction]) (\<lambda>grades.
         item0 grades)))))"

definition score_with_model ::
  "(pystr \<Rightarrow> pystr) \<Rightarrow> ('x, 'p) scorer \<Rightarrow> pystr \<Rightarrow> pystr \<times> ('x, 'p) scorer" where
  "score_with_model lower sc product_title =
     (case model_pipeline lower sc product_title of
        Inr grade \<Rightarrow> (grade, sc)
      | Inl e \<Rightarrow> score_with_rules lower sc product_title)"

subsection \<open>Signal enrichment\<close>

definition base_impact :: "(pystr \<times> rat) list" where
  "base_impact =
     [(S ''A'', fround (12 / 10)), (S ''B'', fround (25 / 10)), (S ''C'', fround (48 / 10)),
      (S ''D'', fround (81 / 10)), (S ''E'', fround (125 / 10))]"

definition co2_category_multipliers :: "(pystr \<times> rat) list" where
  "co2_category_multipliers =
     [(S ''electronics'', fround 3), (S ''automotive'', fround 5), (S ''clothing'', fround (15 / 10)),
      (S ''food'', fround (8 / 10)), (S ''home'', fround 2), (S ''beauty'', fround (12 / 10)),
      (S ''toys'', fround (18 / 10)), (S ''books'', fround (5 / 10)), (S ''garden'', fround (9 / 10)),
      (S ''health'', fround (11 / 10))]"

text \<open>
  The text after the number in the f-string of \<open>_estimate_co2_impact\<close>, code point by code
  point as the source file has it: \<open> kg CO\<close>, then U+00E2, U+201A, U+201A.
\<close>

definition co2_unit :: pystr where
  "co2_unit = S '' kg CO'' @ [226, 8218, 8218]"

definition estimate_co2_impact ::
  "(pystr \<Rightarrow> pystr) \<Rightarrow> ('x, 'p) scorer \<Rightarrow> pystr \<Rightarrow> pystr \<Rightarrow> (exn + pystr) \<times> ('x, 'p) scorer" where
  "estimate_co2_impact lower sc product_title grade =
     (let (category, sc') = detect_category sc (lower product_title)
      in case map_of base_impact grade of
           None \<Rightarrow> (Inl (KeyError grade), sc')
         | Some base \<Rightarrow>
             (let impact = fmul base (case map_of co2_category_multipliers category of
                                        Some m \<Rightarrow> m | None \<Rightarrow> fround 1)
              in (Inr (format_1f impact @ co2_unit), sc')))"

definition recyclable_keywords :: "pystr list" where
  "recyclable_keywords =
     map S [''metal'', ''aluminum'', ''steel'', ''glass'', ''paper'', ''cardboard'', ''recyclable'']"

definition non_recyclable_keywords :: "pystr list" where
  "non_recyclable_keywords = map S [''composite'', ''mixed materials'', ''laminated'', ''foam'']"

definition recyclable_categories :: "pystr list" where
  "recyclable_categories = map S [''electronics'', ''books'', ''home'']"

definition assess_recyclability ::
  "(pystr \<Rightarrow> pystr) \<Rightarrow> ('x, 'p) scorer \<Rightarrow> pystr \<Rightarrow> bool \<times> ('x, 'p) scorer" where
  "assess_recyclability lower sc product_title =
     (let title_lower = lower product_title
      in if keyword_loop recyclable_keywords title_lower then (True, sc)
         else if keyword_loop non_recyclable_keywords title_lower then (False, sc)
         else (let (category, sc') = detect_category sc title_lower
               in (category \<in> set recyclable_categories, sc')))"

definition assess_renewable_materials :: "(pystr \<Rightarrow> pystr) \<Rightarrow> pystr \<Rightarrow> bool" where
  "assess_renewable_materials lower product_title =
     keyword_loop (map S [''bamboo'', ''hemp'', ''organic cotton'', ''wood'', ''cork'', ''renewable'',
                          ''bio-based'']) (lower product_title)"

definition assess_packaging :: "(pystr \<Rightarrow> pystr) \<Rightarrow> pystr \<Rightarrow> pystr" where
  "assess_packaging lower product_title =
     (let title_lower = lower product_title
      in if keyword_loop (map S [''minimal packaging'', ''plastic-free'', ''zero waste'']) title_lower
         then S ''Excellent''
         else if keyword_loop (map S [''recyclable packaging'', ''cardboard'']) title_lower
         then S ''Good''
         else if keyword_loop (map S [''excessive packaging'', ''plastic packaging'']) title_lower
         then S ''Poor''
         else S ''Average'')"

definition assess_supply_chain :: "(pystr \<Rightarrow> pystr) \<Rightarrow> pystr \<Rightarrow> pystr" where
  "assess_supply_chain lower product_title =
     (let title_lower = lower product_title
      in if keyword_loop (map S [''local'', ''fair trade'', ''ethical'', ''local sourced'']) title_lower
         then S ''Excellent''
         else if keyword_loop (map S [''certified'', ''responsible'']) title_lower
         then S ''Good''
         else S ''Unknown'')"

definition messages :: "(pystr \<times> pystr list) list" where
  "messages =
     [(S ''A'', map S [''Excellent choice! This product supports sustainable practices.'',
                       ''Great pick! This item has minimal environmental impact.'',
                       ''Perfect! This product promotes a circular economy.'']),
      (S ''B'', map S [''Good choice! This product is more sustainable than average.'',
                       ''Nice pick! Consider reusing or recycling when done.'',
                       ''Well done! This item has better environmental credentials.'']),
      (S ''C'', map S [''Average sustainability. Look for eco-friendly alternatives.'',
                       ''Consider checking for more sustainable options.'',
                       ''This product meets basic environmental standards.'']),
      (S ''D'', map S [''Below average sustainability. Consider alternatives.'',
                       ''Look for products with better environmental ratings.'',
                       ''This item could have significant environmental impact.'']),
      (S ''E'', map S [''Poor sustainability rating. Strongly consider alternatives.'',
                       ''This product may have high environmental impact.'',
                       ''Look for eco-friendly alternatives to reduce your footprint.''])]"

text \<open>
  \<open>random.choice\<close> on a non-empty sequence; the number drawn is the parameter \<open>r\<close>.
\<close>

definition random_choice :: "nat \<Rightarrow> 'a list \<Rightarrow> exn + 'a" where
  "random_choice r xs = (if xs = [] then Inl IndexError else Inr (xs ! (r mod length xs)))"

definition generate_green_message ::
  "(pystr \<Rightarrow> pystr) \<Rightarrow> ('x, 'p) scorer \<Rightarrow> pystr \<Rightarrow> pystr \<Rightarrow> nat \<Rightarrow> (exn + pystr) \<times> ('x, 'p) scorer" where
  "generate_green_message lower sc product_title grade r =
     (let (category, sc') = detect_category sc (lower product_title)
      in case map_of messages (S ''C'') of
           None \<Rightarrow> (Inl (KeyError (S ''C'')), sc')
         | Some dflt \<Rightarrow>
             (random_choice r (case map_of messages grade of Some ms \<Rightarrow> ms | None \<Rightarrow> dflt), sc'))"

fun count_keywords :: "pystr list \<Rightarrow> pystr \<Rightarrow> nat \<Rightarrow> nat" where
  "count_keywords [] title_lower matching_keywords = matching_keywords"
| "count_keywords (keyword # keywords) title_lower matching_keywords =
     count_keywords keywords title_lower
       (if is_in keyword title_lower then matching_keywords + 1 else matching_keywords)"

fun count_tiers :: "(pystr \<times> pystr list) list \<Rightarrow> pystr \<Rightarrow> nat \<Rightarrow> nat" where
  "count_tiers [] title_lower matching_keywords = matching_keywords"
| "count_tiers ((category, keywords) # rest) title_lower matching_keywords =
     count_tiers rest title_lower (count_keywords keywords title_lower matching_keywords)"

definition calculate_confidence :: "(pystr \<Rightarrow> pystr) \<Rightarrow> pystr \<Rightarrow> rat" where
  "calculate_confidence lower product_title =
     (let title_lower = lower product_title;
          confidence = fround (5 / 10);
          matching_keywords = count_tiers sustainability_keywords title_lower 0;
          keyword_confidence = min (int_truediv (int matching_keywords) 5) (fround (4 / 10));
          confidence = fadd confidence keyword_confidence;
          confidence = (if 4 \<le> length (split product_title)
                        then fadd confidence (fround (1 / 10)) else confidence)
      in min confidence (fround (95 / 100)))"

subsection \<open>The facade\<close>

record result =
  grade :: pystr
  co2_impact :: pystr
  recyclable :: bool
  renewable_materials :: bool
  packaging_score :: pystr
  supply_chain_score :: pystr
  green_message :: pystr
  confidence :: rat
  timestamp :: pystr

text \<open>\<open>now\<close> is what \<open>datetime.now().isoformat()\<close> returns at the call.\<close>

definition get_default_score :: "pystr \<Rightarrow> result" where
  "get_default_score now =
     \<lparr> grade = S ''C'', co2_impact = S ''Unknown'', recyclable = False,
       renewable_materials = False, packaging_score = S ''Unknown'',
       supply_chain_score = S ''Unknown'',
       green_message = S ''Unable to assess sustainability. Please try again.'',
       confidence = fround (1 / 10), timestamp = now \<rparr>"

text \<open>
  The body of the \<open>try\<close> of \<open>score_product\<close>, in its three parts: the choice of the
  grader (an attribute is true when it holds an artifact and false when it is \<open>None\<close>), the
  update of the counters, and the dictionary of the result, whose entries are evaluated in
  the order written. What the body has written to the scorer before an
  exception stays written, so the scorer is returned in both cases.
\<close>

definition choose_grader ::
  "(pystr \<Rightarrow> pystr) \<Rightarrow> ('x, 'p) scorer \<Rightarrow> pystr \<Rightarrow> pystr \<times> ('x, 'p) scorer" where
  "choose_grader lower sc product_title =
     (if model sc \<noteq> None \<and> vectorizer sc \<noteq> None \<and> label_encoder sc \<noteq> None
      then score_with_model lower sc product_title
      else score_with_rules lower sc product_title)"

definition build_result ::
  "(pystr \<Rightarrow> pystr) \<Rightarrow> ('x, 'p) scorer \<Rightarrow> pystr \<Rightarrow> pystr \<Rightarrow> nat \<Rightarrow> pystr \<Rightarrow> (exn + result) \<times> ('x, 'p) scorer" where
  "build_result lower sc product_title grade' r now =
     (case estimate_co2_impact lower sc product_title grade' of
        (Inl e, sc4) \<Rightarrow> (Inl e, sc4)
      | (Inr co2, sc4) \<Rightarrow>
          (let (rec, sc5) = assess_recyclability lower sc4 product_title;
               ren = assess_renewable_materials lower product_title;
               pack = assess_packaging lower product_title;
               chain = assess_supply_chain lower product_title
           in case generate_green_message lower sc5 product_title grade' r of
                (Inl e, sc6) \<Rightarrow> (Inl e, sc6)
              | (Inr msg, sc6) \<Rightarrow>
                  (Inr \<lparr> grade = grade', co2_impact = co2, recyclable = rec,
                         renewable_materials = ren, packaging_score = pack,
                         supply_chain_score = chain, green_message = msg,
                         confidence = calculate_confidence lower product_title,
                         timestamp = now \<rparr>, sc6)))"

definition score_product_try ::
  "(pystr \<Rightarrow> pystr) \<Rightarrow> ('x, 'p) scorer \<Rightarrow> pystr \<Rightarrow> nat \<Rightarrow> pystr \<Rightarrow> (exn + result) \<times> ('x, 'p) scorer" where
  "score_product_try lower sc product_title r now =
     (let sc1 = sc\<lparr>total_predictions := total_predictions sc + 1\<rparr>;
          (grade, sc2) = choose_grader lower sc1 product_title
      in case map_of (grade_distribution sc2) grade of
           None \<Rightarrow> (Inl (KeyError grade), sc2)
         | Some n \<Rightarrow>
             build_result lower
               (sc2\<lparr>grade_distribution := AList.update grade (n + 1) (grade_distribution sc2)\<rparr>)
               product_title grade r now)"

definition score_product ::
  "(pystr \<Rightarrow> pystr) \<Rightarrow> ('x, 'p) scorer \<Rightarrow> pystr \<Rightarrow> nat \<Rightarrow> pystr \<Rightarrow> result \<times> ('x, 'p) scorer" where
  "score_product lower sc product_title r now =
     (case score_product_try lower sc product_title r now of
        (Inr res, sc') \<Rightarrow> (res, sc')
      | (Inl e, sc') \<Rightarrow> (get_default_score now, sc'))"

text \<open>
  A sequence of calls on one scorer: each call is a title with the random draw and the
  clock reading of that call. \<open>failures\<close> counts the calls whose \<open>try\<close> raised.
\<close>

fun run ::
  "(pystr \<Rightarrow> pystr) \<Rightarrow> ('x, 'p) scorer \<Rightarrow> (pystr \<times> nat \<times> pystr) list \<Rightarrow> result list \<times> ('x, 'p) scorer" where
  "run lower sc [] = ([], sc)"
| "run lower sc ((title, r, now) # calls) =
     (let (res, sc') = score_product lower sc title r now;
          (ress, sc'') = run lower sc' calls
      in (res # ress, sc''))"

fun failures ::
  "(pystr \<Rightarrow> pystr) \<Rightarrow> ('x, 'p) scorer \<Rightarrow> (pystr \<times> nat \<times> pystr) list \<Rightarrow> nat" where
  "failures lower sc [] = 0"
| "failures lower sc ((title, r, now) # calls) =
     (case score_product_try lower sc title r now of
        (Inl e, sc') \<Rightarrow> 1 + failures lower sc' calls
      | (Inr res, sc') \<Rightarrow> failures lower sc' calls)"

text \<open>
  \<open>get_stats\<close>, without the list of categories and the clock reading: the two counters and
  the model type.
\<close>

definition get_stats :: "('x, 'p) scorer \<Rightarrow> nat \<times> (pystr \<times> nat) list \<times> pystr" where
  "get_stats sc =
     (total_predictions sc, grade_distribution sc,
      if model sc \<noteq> None then S (''M'' @ ''L'') else S ''Rule-based'')"

definition grade_sum :: "(pystr \<times> nat) list \<Rightarrow> nat" where
  "grade_sum counts = sum_list (map snd counts)"

subsection \<open>The rule-based grader as the specification describes it\<close>

text \<open>
  The detected category as a function of the lower-cased title alone, and the number of
  keywords of a tier that are substrings of it.
\<close>

definition category_of :: "pystr \<Rightarrow> pystr" where
  "category_of title_lower =
     (case category_loop category_keywords title_lower of
        Some category \<Rightarrow> category | None \<Rightarrow> S ''other'')"

definition hits :: "pystr \<Rightarrow> pystr \<Rightarrow> int" where
  "hits tier title_lower =
     int (length (filter (\<lambda>keyword. is_in keyword title_lower)
                         (case map_of sustainability_keywords tier of
                            Some keywords \<Rightarrow> keywords | None \<Rightarrow> [])))"

text \<open>The multiplier table of section 4.3 of the specification, as floats.\<close>

definition spec_multiplier :: "pystr \<Rightarrow> rat" where
  "spec_multiplier category =
     (if category = S ''electronics'' then fround (8 / 10)
      else if category = S ''clothing'' then fround (9 / 10)
      else if category = S ''food'' then fround (11 / 10)
      else if category = S ''home'' then fround 1
      else if category = S ''beauty'' then fround (95 / 100)
      else if category = S ''toys'' then fround (85 / 100)
      else if category = S ''books'' then fround (105 / 100)
      else if category = S ''automotive'' then fround (7 / 10)
      else if category = S ''garden'' then fround (12 / 10)
      else if category = S ''health'' then fround 1
      else 1)"

text \<open>
  Base 50, each tier's delta once per matching keyword, then the category's multiplier;
  for \<open>other\<close> the score is left as it is.
\<close>

definition spec_rule_score :: "pystr \<Rightarrow> rat" where
  "spec_rule_score title_lower =
     (let score = 50 + 20 * hits (S ''excellent'') title_lower
                     + 10 * hits (S ''good'') title_lower
                     + 0 * hits (S ''average'') title_lower
                     - 10 * hits (S ''poor'') title_lower
                     - 20 * hits (S ''very_poor'') title_lower
      in if category_of title_lower = S ''other'' then of_int score
         else fmul (of_int score) (spec_multiplier (category_of title_lower)))"

subsection \<open>Invariants of the scorer\<close>

text \<open>
  The grade letters, which are the keys of \<open>grade_distribution\<close> from \<open>__init__\<close> on, and the
  relation between two scorers that differ at most in \<open>categories_processed\<close>.
\<close>

definition valid_grades :: "pystr list" where
  "valid_grades = map S [''A'', ''B'', ''C'', ''D'', ''E'']"

definition grade_keys :: "('x, 'p) scorer \<Rightarrow> bool" where
  "grade_keys sc \<longleftrightarrow> map fst (grade_distribution sc) = valid_grades"

definition same_but_categories :: "('x, 'p) scorer \<Rightarrow> ('x, 'p) scorer \<Rightarrow> bool" where
  "same_but_categories sc sc' \<longleftrightarrow>
     model sc' = model sc \<and> vectorizer sc' = vectorizer sc \<and>
     label_encoder sc' = label_encoder sc \<and>
     total_predictions sc' = total_predictions sc \<and>
     grade_distribution sc' = grade_distribution sc"

subsection \<open>Scorers with a loaded artifact, for the examples\<close>

text \<open>
  A scorer as \<open>load_model\<close> leaves it, with artifacts that answer every title with the one
  label given, and one whose vectorizer raises.
\<close>

definition stub_scorer :: "pystr \<Rightarrow> (unit, unit) scorer" where
  "stub_scorer label =
     init\<lparr> model := Some (\<lambda>X. Inr [()]), vectorizer := Some (\<lambda>features. Inr ()),
           label_encoder := Some (\<lambda>predictions. Inr [label]) \<rparr>"

definition broken_scorer :: "(unit, unit) scorer" where
  "broken_scorer =
     init\<lparr> model := Some (\<lambda>X. Inr [()]), vectorizer := Some (\<lambda>features. Inl (ArtifactError 0)),
           label_encoder := Some (\<lambda>predictions. Inr [S ''A'']) \<rparr>"

text \<open>Scorers whose classifier raises, answers with no prediction, and whose decoder raises.\<close>

definition broken_classifier :: "(unit, unit) scorer" where
  "broken_classifier =
     init\<lparr> model := Some (\<lambda>X. Inl (ArtifactError 1)), vectorizer := Some (\<lambda>features. Inr ()),
           label_encoder := Some (\<lambda>predictions. Inr [S ''A'']) \<rparr>"

definition empty_classifier :: "(unit, unit) scorer" where
  "empty_classifier =
     init\<lparr> model := Some (\<lambda>X. Inr []), vectorizer := Some (\<lambda>features. Inr ()),
           label_encoder := Some (\<lambda>predictions. Inr [S ''A'']) \<rparr>"

definition broken_decoder :: "(unit, unit) scorer" where
  "broken_decoder =
     init\<lparr> model := Some (\<lambda>X. Inr [()]), vectorizer := Some (\<lambda>features. Inr ()),
           label_encoder := Some (\<lambda>predictions. Inl (ArtifactError 2)) \<rparr>"

subsection \<open>The CO2 estimate as the specification describes it\<close>

text \<open>The two tables of section 4.5 of the specification, as floats, and the reading of a
  string of decimal digits as a number.\<close>

definition spec_base_impact :: "pystr \<Rightarrow> rat" where
  "spec_base_impact grade' =
     (if grade' = S ''A'' then fround (12 / 10)
      else if grade' = S ''B'' then fround (25 / 10)
      else if grade' = S ''C'' then fround (48 / 10)
      else if grade' = S ''D'' then fround (81 / 10)
      else fround (125 / 10))"

definition spec_co2_multiplier :: "pystr \<Rightarrow> rat" where
  "spec_co2_multiplier category =
     (if category = S ''electronics'' then fround 3
      else if category = S ''automotive'' then fround 5
      else if category = S ''clothing'' then fround (15 / 10)
      else if category = S ''food'' then fround (8 / 10)
      else if category = S ''home'' then fround 2
      else if category = S ''beauty'' then fround (12 / 10)
      else if category = S ''toys'' then fround (18 / 10)
      else if category = S ''books'' then fround (5 / 10)
      else if category = S ''garden'' then fround (9 / 10)
      else if category = S ''health'' then fround (11 / 10)
      else fround 1)"

definition is_digit :: "nat \<Rightarrow> bool" where
  "is_digit c \<longleftrightarrow> 48 \<le> c \<and> c \<le> 57"

definition digits_value :: "pystr \<Rightarrow> nat" where
  "digits_value ds = foldl (\<lambda>n c. 10 * n + (c - 48)) 0 ds"

section \<open>Properties\<close>

subsection \<open>Strings\<close>

lemma startswith_prefix: "startswith t k \<longleftrightarrow> prefix k t"
  by (induction t k rule: startswith.induct) auto

lemma is_in_sublist: "is_in k t \<longleftrightarrow> sublist k t"
  by (induction t) (auto simp: startswith_prefix sublist_Cons_right)

subsection \<open>Category detection\<close>

lemma keyword_loop_iff: "keyword_loop kws t \<longleftrightarrow> (\<exists>k \<in> set kws. is_in k t)"
  by (induction kws) auto

lemma category_loop_find:
  "category_loop tab t = map_option fst (find (matches t) tab)"
  by (induction tab) (auto simp: matches_def keyword_loop_iff)

lemma category_loop_head:
  "matches t (c, kws) \<Longrightarrow> category_loop ((c, kws) # rest) t = Some c"
  by (simp add: matches_def keyword_loop_iff)

lemma category_loop_none:
  "\<forall>entry \<in> set tab. \<not> matches t entry \<Longrightarrow> category_loop tab t = None"
  by (induction tab) (auto simp: matches_def keyword_loop_iff)

lemma category_order:
  "map fst category_keywords =
     map S [''electronics'', ''clothing'', ''food'', ''home'', ''beauty'', ''toys'', ''books'',
            ''automotive'', ''garden'', ''health'']"
  by (simp add: category_keywords_def)

text \<open>
  C3. Category detection scans the table in its declaration order (electronics, clothing,
  food, home, beauty, toys, books, automotive, garden, health) and returns the first
  category one of whose keywords is a substring of the title; a title with an electronics
  keyword is electronics whatever else it contains, and a title matching no keyword is
  \<open>other\<close>.
\<close>

theorem detect_category_first_match:
  "map fst category_keywords =
     map S [''electronics'', ''clothing'', ''food'', ''home'', ''beauty'', ''toys'', ''books'',
            ''automotive'', ''garden'', ''health'']
   \<and> fst (detect_category sc t) =
       (case find (matches t) category_keywords of
          Some entry \<Rightarrow> fst entry | None \<Rightarrow> S ''other'')
   \<and> (matches t (hd category_keywords) \<longrightarrow> fst (detect_category sc t) = S ''electronics'')
   \<and> ((\<forall>entry \<in> set category_keywords. \<not> matches t entry) \<longrightarrow>
        fst (detect_category sc t) = S ''other'')"
proof (intro conjI impI)
  show "map fst category_keywords =
     map S [''electronics'', ''clothing'', ''food'', ''home'', ''beauty'', ''toys'', ''books'',
            ''automotive'', ''garden'', ''health'']"
    by (rule category_order)
next
  show "fst (detect_category sc t) =
       (case find (matches t) category_keywords of
          Some entry \<Rightarrow> fst entry | None \<Rightarrow> S ''other'')"
    by (simp add: detect_category_def category_loop_find split: option.splits)
next
  assume m: "matches t (hd category_keywords)"
  obtain kws rest where ck: "category_keywords = (S ''electronics'', kws) # rest"
    by (simp add: category_keywords_def)
  from m have "matches t (S ''electronics'', kws)"
    unfolding ck by simp
  then have "category_loop ((S ''electronics'', kws) # rest) t = Some (S ''electronics'')"
    by (rule category_loop_head)
  then have "category_loop category_keywords t = Some (S ''electronics'')"
    unfolding ck .
  then show "fst (detect_category sc t) = S ''electronics''"
    by (simp add: detect_category_def)
next
  assume "\<forall>entry \<in> set category_keywords. \<not> matches t entry"
  then have "category_loop category_keywords t = None"
    by (rule category_loop_none)
  then show "fst (detect_category sc t) = S ''other''"
    by (simp add: detect_category_def)
qed

theorem detect_category_first_match_witness:
  "matches (S ''phone shirt'') (hd category_keywords)
   \<and> matches (S ''phone shirt'') (category_keywords ! 1)
   \<and> fst (detect_category (init :: (unit, unit) scorer) (S ''phone shirt'')) = S ''electronics''
   \<and> find (matches (S ''zzz'')) category_keywords = None
   \<and> fst (detect_category (init :: (unit, unit) scorer) (S ''zzz'')) = S ''other''"
proof -
  have a: "matches (S ''phone shirt'') (hd category_keywords)"
    by (simp add: matches_def category_keywords_def S_def)
  have b: "matches (S ''phone shirt'') (category_keywords ! 1)"
    by (simp add: matches_def category_keywords_def S_def)
  have c: "\<forall>entry \<in> set category_keywords. \<not> matches (S ''zzz'') entry"
    by (simp add: matches_def category_keywords_def S_def)
  then have d: "find (matches (S ''zzz'')) category_keywords = None"
    by (simp add: find_None_iff)
  show ?thesis
    using a b c d detect_category_first_match [of "init :: (unit, unit) scorer" "S ''phone shirt''"]
      detect_category_first_match [of "init :: (unit, unit) scorer" "S ''zzz''"]
    by blast
qed

subsection \<open>Rounding to a float\<close>

lemma pow2_powi: "pow2 e = 2 powi e"
  by (simp add: pow2_def power_int_def field_simps)

lemma pow2_pos: "0 < pow2 e"
  by (simp add: pow2_def)

lemma pow2_add: "pow2 (a + b) = pow2 a * pow2 b"
  by (simp add: pow2_powi power_int_add)

lemma rne_ge: "of_int n \<le> x \<Longrightarrow> n \<le> rne x"
proof -
  assume "of_int n \<le> x"
  then have "n \<le> \<lfloor>x\<rfloor>" by (simp add: le_floor_iff)
  moreover have "\<lfloor>x\<rfloor> \<le> rne x" by (simp add: rne_def Let_def)
  ultimately show ?thesis by linarith
qed

lemma ilog2_lower: assumes "0 < x" shows "pow2 (ilog2 x) \<le> x"
proof (cases "1 \<le> x")
  case True
  define n where "n = nat \<lfloor>x\<rfloor>"
  from True have n: "0 < n" by (simp add: n_def)
  have nx: "of_nat n \<le> x" using True by (simp add: n_def)
  from floorlog_bounds [of n 2] n have "2 ^ (floorlog 2 n - 1) \<le> n" by simp
  then have "(2::rat) ^ (floorlog 2 n - 1) \<le> of_nat n"
    by (metis of_nat_le_iff of_nat_numeral of_nat_power)
  with nx have a: "(2::rat) ^ (floorlog 2 n - 1) \<le> x" by linarith
  have "floorlog 2 n \<noteq> 0" using n by (simp add: floorlog_eq_zero_iff)
  then have "nat (int (floorlog 2 n) - 1) = floorlog 2 n - 1" by simp
  then have "pow2 (ilog2 x) = 2 ^ (floorlog 2 n - 1)"
    using True \<open>floorlog 2 n \<noteq> 0\<close> by (simp add: ilog2_def pow2_def n_def [symmetric])
  with a show ?thesis by simp
next
  case False
  define N where "N = \<lceil>1 / x\<rceil>"
  define j where "j = floorlog 2 (nat (N - 1))"
  from False assms have y: "1 < 1 / x" by simp
  then have N2: "2 \<le> N" unfolding N_def by linarith
  then have pos: "0 < nat (N - 1)" by simp
  from floorlog_bounds [of "nat (N - 1)" 2] pos have "nat (N - 1) < 2 ^ j"
    by (simp add: j_def)
  then have "N - 1 < 2 ^ j" using N2 by (simp add: nat_less_iff)
  then have "N \<le> 2 ^ j" by simp
  then have "(of_int N :: rat) \<le> 2 ^ j"
    by (metis of_int_le_iff of_int_numeral of_int_power)
  moreover have "1 / x \<le> of_int N" unfolding N_def by linarith
  ultimately have "1 / x \<le> 2 ^ j" by linarith
  then have "1 / 2 ^ j \<le> x" using assms by (simp add: field_simps)
  moreover have "j \<noteq> 0" using pos by (simp add: j_def floorlog_eq_zero_iff)
  ultimately show ?thesis using False
    by (simp add: ilog2_def pow2_def N_def [symmetric] j_def [symmetric])
qed

lemma ilog2_half: assumes "1 / 2 \<le> x" shows "- 1 \<le> ilog2 x"
proof (cases "1 \<le> x")
  case True
  then show ?thesis by (simp add: ilog2_def)
next
  case False
  from assms have "0 < x" by simp
  with False assms have "1 < 1 / x" "1 / x \<le> 2" by (simp_all add: field_simps)
  then have "\<lceil>1 / x\<rceil> = 2" by (simp add: ceiling_eq_iff) 
  then show ?thesis using False by (simp add: ilog2_def compute_floorlog)
qed

lemma fround_lower: assumes "0 < x" shows "pow2 (ilog2 x) \<le> fround x"
proof -
  define e where "e = ilog2 x - 52"
  have "pow2 (ilog2 x) = pow2 52 * pow2 e"
    unfolding e_def pow2_add [symmetric] by simp
  then have k: "pow2 (ilog2 x) = 2 ^ 52 * pow2 e" by (simp add: pow2_def)
  have "2 ^ 52 * pow2 e \<le> x" using ilog2_lower [OF assms] k by simp
  then have "of_int (2 ^ 52) \<le> x / pow2 e" using pow2_pos [of e]
    by (simp add: field_simps)
  then have "2 ^ 52 \<le> rne (x / pow2 e)" by (rule rne_ge)
  then have "(of_int (2 ^ 52) :: rat) \<le> of_int (rne (x / pow2 e))"
    by (simp only: of_int_le_iff)
  then have "2 ^ 52 * pow2 e \<le> of_int (rne (x / pow2 e)) * pow2 e"
    using pow2_pos [of e] by simp
  then show ?thesis using assms k by (simp add: fround_def e_def Let_def)
qed

lemma fround_nonneg: "0 \<le> x \<Longrightarrow> 0 \<le> fround x"
  using fround_lower [of x] pow2_pos [of "ilog2 x"]
  by (cases "x = 0") (auto simp: fround_def)

lemma fround_ge_half: assumes "1 / 2 \<le> x" shows "1 / 2 \<le> fround x"
proof -
  from assms have pos: "0 < x" by simp
  have "(2::rat) powi (- 1) \<le> 2 powi (ilog2 x)"
    using ilog2_half [OF assms] by (intro power_int_increasing) simp_all
  then have "1 / 2 \<le> pow2 (ilog2 x)"
    by (simp add: pow2_powi power_int_minus)
  then show ?thesis using fround_lower [OF pos] by simp
qed

subsection \<open>Feature extraction\<close>

lemma ascii_lower_no_upper: "\<forall>c \<in> set (ascii_lower s). \<not> is_upper_az c"
  by (auto simp: ascii_lower_def is_upper_az_def)

lemma ascii_lower_fixed:
  "\<forall>c \<in> set s. is_lower_az c \<or> isspace c \<Longrightarrow> ascii_lower s = s"
  by (induction s) (auto simp: ascii_lower_def is_upper_az_def is_lower_az_def isspace_def)

lemma filter_id: "\<forall>c \<in> set s. P c \<Longrightarrow> filter P s = s"
  by (induction s) auto

text \<open>
  C7, as amended. \<open>prepare_features\<close> lower-cases each title and removes every code point
  that is neither an ASCII letter nor whitespace. Whitespace is kept as it is, neither
  collapsed nor trimmed: an empty lower-cased title gives the empty string, and a title of
  whitespace only is returned as its lower-cased form.
\<close>

theorem cleaned_keeps_letters_and_whitespace:
  "prepare_features lower titles = map (cleaned lower) titles
   \<and> (\<forall>c \<in> set (cleaned lower title). is_lower_az c \<or> is_upper_az c \<or> isspace c)
   \<and> cleaned lower title =
       filter (\<lambda>c. is_lower_az c \<or> is_upper_az c \<or> isspace c) (lower title)
   \<and> filter isspace (cleaned lower title) = filter isspace (lower title)
   \<and> (lower title = [] \<longrightarrow> cleaned lower title = [])
   \<and> ((\<forall>c \<in> set (lower title). isspace c) \<longrightarrow> cleaned lower title = lower title)"
proof (intro conjI impI)
  show "filter isspace (cleaned lower title) = filter isspace (lower title)"
    unfolding cleaned_def filter_filter by (rule filter_cong) auto
next
  assume "\<forall>c \<in> set (lower title). isspace c"
  then show "cleaned lower title = lower title"
    unfolding cleaned_def by (intro filter_id) simp
qed (simp_all add: cleaned_def prepare_features_def)

theorem cleaned_keeps_letters_and_whitespace_witness:
  "list_all isspace (ascii_lower (S ''  ''))
   \<and> cleaned ascii_lower (S ''  '') = S ''  ''
   \<and> ascii_lower [] = [] \<and> cleaned ascii_lower [] = []"
proof -
  have a: "\<forall>c \<in> set (ascii_lower (S ''  '')). isspace c"
    by (simp add: ascii_lower_def S_def isspace_def is_upper_az_def)
  have b: "ascii_lower [] = []"
    by (simp add: ascii_lower_def)
  have c: "ascii_lower (S ''  '') = S ''  ''"
    by (simp add: ascii_lower_def S_def is_upper_az_def)
  have "cleaned ascii_lower (S ''  '') = ascii_lower (S ''  '')"
    using cleaned_keeps_letters_and_whitespace [of ascii_lower "[]" "S ''  ''"] a by blast
  moreover have "cleaned ascii_lower [] = []"
    using cleaned_keeps_letters_and_whitespace [of ascii_lower "[]" "[]"] b by blast
  ultimately show ?thesis
    using a b c by (simp add: list_all_iff)
qed

theorem cleaned_collapse_counterexample:
  "cleaned ascii_lower (S ''a - b'') = S ''a  b'' \<and> cleaned ascii_lower (S '' '') \<noteq> []"
  by (simp add: cleaned_def ascii_lower_def S_def is_upper_az_def is_lower_az_def isspace_def)

text \<open>
  C8. \<open>prepare_features\<close> applied to its own output changes nothing, for every title, the
  empty one included, given two facts about \<open>str.lower\<close>: its result has no upper-case ASCII
  letter, and it leaves a string of lower-case ASCII letters and whitespace as it is. The
  function is total: none of its three steps raises on a \<open>str\<close>.
\<close>

theorem cleaned_idempotent:
  assumes no_upper: "\<And>s. \<forall>c \<in> set (lower s). \<not> is_upper_az c"
    and fixed: "\<And>s. \<forall>c \<in> set s. is_lower_az c \<or> isspace c \<Longrightarrow> lower s = s"
  shows "cleaned lower (cleaned lower x) = cleaned lower x
         \<and> prepare_features lower (prepare_features lower xs) = prepare_features lower xs"
proof -
  have idem: "cleaned lower (cleaned lower y) = cleaned lower y" for y
  proof -
    have low: "\<forall>c \<in> set (cleaned lower y). is_lower_az c \<or> isspace c"
      using no_upper [of y] by (auto simp: cleaned_def)
    then have "lower (cleaned lower y) = cleaned lower y"
      by (rule fixed)
    then have "cleaned lower (cleaned lower y) =
        filter (\<lambda>c. is_lower_az c \<or> is_upper_az c \<or> isspace c) (cleaned lower y)"
      by (simp add: cleaned_def)
    also have "\<dots> = cleaned lower y"
      using low by (intro filter_id) auto
    finally show ?thesis .
  qed
  then show ?thesis
    by (simp add: prepare_features_def)
qed

theorem cleaned_idempotent_witness:
  "cleaned ascii_lower (cleaned ascii_lower (S ''Eco-Bag 2'')) = cleaned ascii_lower (S ''Eco-Bag 2'')
   \<and> cleaned ascii_lower (cleaned ascii_lower []) = cleaned ascii_lower []"
  using cleaned_idempotent [of ascii_lower "S ''Eco-Bag 2''" "[]", OF ascii_lower_no_upper ascii_lower_fixed]
    cleaned_idempotent [of ascii_lower "[]" "[]", OF ascii_lower_no_upper ascii_lower_fixed]
  by simp

subsection \<open>Recyclability\<close>

text \<open>
  C9. A title whose lower-cased form contains \<open>non-recyclable\<close> is assessed as recyclable:
  the keyword \<open>recyclable\<close> of the first list is a substring of it, and the first loop
  returns before the second list is looked at.
\<close>

theorem assess_recyclability_non_recyclable:
  assumes "is_in (S ''non-recyclable'') (lower product_title)"
  shows "assess_recyclability lower sc product_title = (True, sc)"
proof -
  have "is_in (S ''recyclable'') (S ''non-recyclable'')"
    by (simp add: S_def)
  then have "sublist (S ''recyclable'') (lower product_title)"
    using assms unfolding is_in_sublist by (rule sublist_order.order_trans)
  then have "is_in (S ''recyclable'') (lower product_title)"
    by (simp add: is_in_sublist)
  moreover have "S ''recyclable'' \<in> set recyclable_keywords"
    by (simp add: recyclable_keywords_def)
  ultimately have "keyword_loop recyclable_keywords (lower product_title)"
    unfolding keyword_loop_iff by blast
  then show ?thesis
    by (simp add: assess_recyclability_def)
qed

theorem assess_recyclability_non_recyclable_witness:
  "is_in (S ''non-recyclable'') (ascii_lower (S ''Non-Recyclable Foam''))
   \<and> is_in (S ''foam'') (ascii_lower (S ''Non-Recyclable Foam''))
   \<and> fst (assess_recyclability ascii_lower (init :: (unit, unit) scorer) (S ''Non-Recyclable Foam''))"
proof -
  have a: "is_in (S ''non-recyclable'') (ascii_lower (S ''Non-Recyclable Foam''))"
    by (simp add: ascii_lower_def S_def is_upper_az_def)
  have b: "is_in (S ''foam'') (ascii_lower (S ''Non-Recyclable Foam''))"
    by (simp add: ascii_lower_def S_def is_upper_az_def)
  show ?thesis
    using a b assess_recyclability_non_recyclable
      [of ascii_lower "S ''Non-Recyclable Foam''" "init :: (unit, unit) scorer", OF a]
    by simp
qed

subsection \<open>Rule-based grading\<close>

lemma detect_category_of: "fst (detect_category sc t) = category_of t"
  by (simp add: detect_category_def category_of_def split: option.splits)

lemma category_loop_in: "category_loop tab t = Some c \<Longrightarrow> c \<in> fst ` set tab"
  by (induction tab) (auto split: if_splits)

lemma category_of_cases:
  "category_of t \<in> set (map S [''electronics'', ''clothing'', ''food'', ''home'', ''beauty'', ''toys'',
      ''books'', ''automotive'', ''garden'', ''health'', ''other''])"
proof (cases "category_loop category_keywords t")
  case None
  then show ?thesis by (simp add: category_of_def)
next
  case (Some c)
  then have "c \<in> set (map fst category_keywords)"
    using category_loop_in by fastforce
  then show ?thesis
    using Some unfolding category_order by (auto simp: category_of_def)
qed

lemma multiplier_lookup:
  "map_of category_multipliers (category_of t) =
     (if category_of t = S ''other'' then None else Some (spec_multiplier (category_of t)))"
  using category_of_cases [of t]
  by (auto simp: category_multipliers_def spec_multiplier_def S_def)

lemma score_keywords_sum:
  "score_keywords tier kws t score =
     score + (tier_step tier 0) * int (length (filter (\<lambda>k. is_in k t) kws))"
proof (induction kws arbitrary: score)
  case Nil
  then show ?case by simp
next
  case (Cons k kws)
  have step: "tier_step tier score = score + tier_step tier 0"
    by (simp add: tier_step_def)
  show ?case
    by (simp add: Cons.IH step algebra_simps)
qed

lemma score_tiers_sum:
  "score_tiers sustainability_keywords t 50 =
     50 + 20 * hits (S ''excellent'') t + 10 * hits (S ''good'') t + 0 * hits (S ''average'') t
        - 10 * hits (S ''poor'') t - 20 * hits (S ''very_poor'') t"
proof -
  have names: "S ''excellent'' \<noteq> S ''good''" "S ''excellent'' \<noteq> S ''average''"
    "S ''excellent'' \<noteq> S ''poor''" "S ''excellent'' \<noteq> S ''very_poor''"
    "S ''good'' \<noteq> S ''average''" "S ''good'' \<noteq> S ''poor''" "S ''good'' \<noteq> S ''very_poor''"
    "S ''average'' \<noteq> S ''poor''" "S ''average'' \<noteq> S ''very_poor''"
    "S ''poor'' \<noteq> S ''very_poor''"
    by (simp_all add: S_def)
  show ?thesis
    using names
    by (simp add: sustainability_keywords_def hits_def score_keywords_sum tier_step_def
        del: map_eq_conv)
qed

lemma grade_names:
  "S ''A'' \<noteq> S ''B''" "S ''A'' \<noteq> S ''C''" "S ''A'' \<noteq> S ''D''" "S ''A'' \<noteq> S ''E''"
  "S ''B'' \<noteq> S ''C''" "S ''B'' \<noteq> S ''D''" "S ''B'' \<noteq> S ''E''"
  "S ''C'' \<noteq> S ''D''" "S ''C'' \<noteq> S ''E''" "S ''D'' \<noteq> S ''E''"
  by (simp_all add: S_def)

text \<open>
  C1. The grade of the rule-based grader is the threshold grade of the score that starts
  at 50, adds +20, +10, 0, -10, -20 once for each keyword of the tiers excellent, good,
  average, poor, very_poor that is a substring of the lower-cased title, and is multiplied
  by the multiplier of the detected category (left as it is for \<open>other\<close>); the thresholds
  80, 65, 45, 30 are inclusive lower bounds of A, B, C, D, and E is everything below.
\<close>

theorem score_with_rules_spec:
  "fst (score_with_rules lower sc product_title) = grade_of_score (spec_rule_score (lower product_title))
   \<and> (grade_of_score x = S ''A'' \<longleftrightarrow> 80 \<le> x)
   \<and> (grade_of_score x = S ''B'' \<longleftrightarrow> 65 \<le> x \<and> x < 80)
   \<and> (grade_of_score x = S ''C'' \<longleftrightarrow> 45 \<le> x \<and> x < 65)
   \<and> (grade_of_score x = S ''D'' \<longleftrightarrow> 30 \<le> x \<and> x < 45)
   \<and> (grade_of_score x = S ''E'' \<longleftrightarrow> x < 30)"
proof (intro conjI)
  obtain c sc' where d: "detect_category sc (lower product_title) = (c, sc')"
    by (cases "detect_category sc (lower product_title)")
  then have c: "c = category_of (lower product_title)"
    using detect_category_of [of sc "lower product_title"] by simp
  show "fst (score_with_rules lower sc product_title) =
      grade_of_score (spec_rule_score (lower product_title))"
    unfolding score_with_rules_def spec_rule_score_def Let_def d score_tiers_sum
    by (simp add: c multiplier_lookup)
qed (use grade_names in \<open>auto simp: grade_of_score_def\<close>)

lemma example_lower: "ascii_lower (S ''Bamboo Hemp Local TV'') = S ''bamboo hemp local tv''"
  by (simp add: ascii_lower_def S_def is_upper_az_def)

lemma example_hits:
  "hits (S ''excellent'') (S ''bamboo hemp local tv'') = 2"
  "hits (S ''good'') (S ''bamboo hemp local tv'') = 1"
  "hits (S ''average'') (S ''bamboo hemp local tv'') = 0"
  "hits (S ''poor'') (S ''bamboo hemp local tv'') = 0"
  "hits (S ''very_poor'') (S ''bamboo hemp local tv'') = 0"
  by (simp_all add: hits_def sustainability_keywords_def S_def)

lemma example_category: "category_of (S ''bamboo hemp local tv'') = S ''electronics''"
  by (simp add: category_of_def category_keywords_def S_def)

lemma example_product: "fmul 100 (fround (8 / 10)) = 80"
  by code_simp

lemma example_score: "spec_rule_score (S ''bamboo hemp local tv'') = 80"
  using example_product by (simp add: spec_rule_score_def example_hits example_category spec_multiplier_def) (simp add: S_def)

theorem score_with_rules_spec_witness:
  "spec_rule_score (ascii_lower (S ''Bamboo Hemp Local TV'')) = 80
   \<and> fst (score_with_rules ascii_lower (init :: (unit, unit) scorer) (S ''Bamboo Hemp Local TV'')) = S ''A''"
proof -
  have "grade_of_score 80 = S ''A''"
    by (simp add: grade_of_score_def)
  then show ?thesis
    using score_with_rules_spec [of ascii_lower "init :: (unit, unit) scorer" "S ''Bamboo Hemp Local TV''" 80]
    by (simp add: example_lower example_score)
qed

subsection \<open>Confidence\<close>

lemma count_keywords_sum:
  "count_keywords kws t n = n + length (filter (\<lambda>k. is_in k t) kws)"
  by (induction kws arbitrary: n) auto

lemma count_tiers_sum:
  "count_tiers tab t n = n + length (filter (\<lambda>k. is_in k t) (concat (map snd tab)))"
  by (induction tab arbitrary: n) (auto simp: count_keywords_sum)

lemma float_constants:
  "fround (1 / 2) = 1 / 2"
  "fround (19 / 20) \<le> 19 / 20"
  "1 / 2 \<le> fround (19 / 20)"
  "fround (1 / 20) \<le> 1 / 2"
  "fround (1 / 20) \<le> fround (1 / 10)"
  "1 / 20 \<le> fround (1 / 10)"
  "fround (1 / 10) \<le> fround (19 / 20)"
  by code_simp+

lemma score_product_try_result:
  "score_product_try lower sc product_title r now = (Inr res, sc') \<Longrightarrow>
     confidence res = calculate_confidence lower product_title \<and> timestamp res = now"
  by (auto simp: score_product_try_def build_result_def Let_def
      split: prod.splits sum.splits option.splits)

lemma score_product_cases:
  "fst (score_product lower sc product_title r now) = get_default_score now \<or>
   confidence (fst (score_product lower sc product_title r now)) =
     calculate_confidence lower product_title"
proof (cases "score_product_try lower sc product_title r now")
  case (Pair out sc')
  then show ?thesis
    by (cases out) (auto simp: score_product_def dest: score_product_try_result)
qed

lemma calculate_confidence_range:
  "1 / 2 \<le> calculate_confidence lower product_title
   \<and> calculate_confidence lower product_title \<le> fround (95 / 100)"
proof -
  define m where "m = count_tiers sustainability_keywords (lower product_title) 0"
  define kc where "kc = min (int_truediv (int m) 5) (fround (4 / 10))"
  define c1 where "c1 = fadd (fround (5 / 10)) kc"
  define c2 where "c2 = (if 4 \<le> length (split product_title) then fadd c1 (fround (1 / 10)) else c1)"
  have eq: "calculate_confidence lower product_title = min c2 (fround (95 / 100))"
    by (simp add: calculate_confidence_def Let_def m_def kc_def c1_def c2_def)
  have "0 \<le> int_truediv (int m) 5"
    unfolding int_truediv_def by (rule fround_nonneg) simp
  moreover have "0 \<le> fround (4 / 10)"
    by (rule fround_nonneg) simp
  ultimately have kc: "0 \<le> kc"
    by (simp add: kc_def)
  have c1: "1 / 2 \<le> c1"
    unfolding c1_def fadd_def using kc by (intro fround_ge_half) (simp add: float_constants)
  have tenth: "0 \<le> fround (1 / 10)"
    by (rule fround_nonneg) simp
  have "1 / 2 \<le> fadd c1 (fround (1 / 10))"
    unfolding fadd_def using c1 tenth by (intro fround_ge_half) linarith
  with c1 have c2: "1 / 2 \<le> c2"
    by (simp add: c2_def)
  show ?thesis
    unfolding eq using c2 float_constants(3) by simp
qed

text \<open>
  C4. On the success path the confidence is 0.5 plus the smaller of a fifth of the number
  of matching keywords and 0.4, plus 0.1 when the title splits into at least four words,
  capped at 0.95; the default result has confidence 0.1; so the confidence of every result
  of \<open>score_product\<close>, for every title, lies between 0.05 and 0.95, as floats and as the
  numbers they denote.
\<close>

theorem confidence_bounds:
  "calculate_confidence lower product_title =
     min ((if 4 \<le> length (split product_title) then (\<lambda>c. fadd c (fround (1 / 10))) else (\<lambda>c. c))
            (fadd (fround (5 / 10))
               (min (int_truediv
                       (int (length (filter (\<lambda>k. is_in k (lower product_title))
                                            (concat (map snd sustainability_keywords))))) 5)
                    (fround (4 / 10)))))
         (fround (95 / 100))
   \<and> confidence (get_default_score now) = fround (1 / 10)
   \<and> fround (5 / 100) \<le> confidence (fst (score_product lower sc product_title r now))
   \<and> confidence (fst (score_product lower sc product_title r now)) \<le> fround (95 / 100)
   \<and> 5 / 100 \<le> confidence (fst (score_product lower sc product_title r now))
   \<and> confidence (fst (score_product lower sc product_title r now)) \<le> 95 / 100"
proof -
  have formula: "calculate_confidence lower product_title =
     min ((if 4 \<le> length (split product_title) then (\<lambda>c. fadd c (fround (1 / 10))) else (\<lambda>c. c))
            (fadd (fround (5 / 10))
               (min (int_truediv
                       (int (length (filter (\<lambda>k. is_in k (lower product_title))
                                            (concat (map snd sustainability_keywords))))) 5)
                    (fround (4 / 10)))))
         (fround (95 / 100))"
    by (simp add: calculate_confidence_def Let_def count_tiers_sum)
  have dflt: "confidence (get_default_score now) = fround (1 / 10)"
    by (simp add: get_default_score_def)
  let ?c = "confidence (fst (score_product lower sc product_title r now))"
  have range: "fround (5 / 100) \<le> ?c \<and> ?c \<le> fround (95 / 100) \<and> 5 / 100 \<le> ?c"
    using score_product_cases [of lower sc product_title r now]
  proof
    assume "fst (score_product lower sc product_title r now) = get_default_score now"
    then show ?thesis
      using float_constants by (simp add: dflt)
  next
    assume "?c = calculate_confidence lower product_title"
    then show ?thesis
      using calculate_confidence_range [of lower product_title] float_constants by simp
  qed
  then have "?c \<le> 95 / 100"
    using float_constants(2) by simp
  with formula dflt range show ?thesis
    by blast
qed

theorem confidence_bounds_witness:
  "calculate_confidence ascii_lower [] = 1 / 2
   \<and> 5 / 100 \<le> confidence (fst (score_product ascii_lower (init :: (unit, unit) scorer) [] 0 []))
   \<and> confidence (fst (score_product ascii_lower (init :: (unit, unit) scorer) [] 0 [])) \<le> 95 / 100"
proof -
  have a: "int_truediv 0 5 = 0"
    by (simp add: int_truediv_def fround_def)
  have b: "0 \<le> fround (4 / 10)"
    by (rule fround_nonneg) simp
  have c: "fadd (1 / 2) 0 = 1 / 2"
    by (simp add: fadd_def float_constants)
  have d: "filter (\<lambda>k. is_in k (ascii_lower [])) (concat (map snd sustainability_keywords)) = []"
    by (simp add: ascii_lower_def sustainability_keywords_def S_def)
  have "calculate_confidence ascii_lower [] = 1 / 2"
    using confidence_bounds [of ascii_lower "[]" "[]" "init :: (unit, unit) scorer" 0] b
    using float_constants(3) by (simp add: d a c float_constants(1) split_def)
  then show ?thesis
    using confidence_bounds [of ascii_lower "[]" "[]" "init :: (unit, unit) scorer" 0]
    by simp
qed

subsection \<open>What a call changes in the scorer\<close>

lemma same_refl: "same_but_categories sc sc"
  by (simp add: same_but_categories_def)

lemma same_trans:
  "same_but_categories a b \<Longrightarrow> same_but_categories b c \<Longrightarrow> same_but_categories a c"
  by (simp add: same_but_categories_def)

lemma detect_category_same: "same_but_categories sc (snd (detect_category sc t))"
  by (simp add: detect_category_def same_but_categories_def split: option.splits)

lemma score_with_rules_same: "same_but_categories sc (snd (score_with_rules lower sc t))"
  using detect_category_same [of sc "lower t"]
  by (auto simp: score_with_rules_def Let_def split: prod.splits)

lemma score_with_model_same: "same_but_categories sc (snd (score_with_model lower sc t))"
  using score_with_rules_same [of sc lower t]
  by (simp add: score_with_model_def same_refl split: sum.splits)

lemma estimate_co2_impact_same:
  "same_but_categories sc (snd (estimate_co2_impact lower sc t g))"
  using detect_category_same [of sc "lower t"]
  by (auto simp: estimate_co2_impact_def Let_def split: prod.splits option.splits)

lemma assess_recyclability_same:
  "same_but_categories sc (snd (assess_recyclability lower sc t))"
  using detect_category_same [of sc "lower t"]
  by (auto simp: assess_recyclability_def Let_def same_refl split: prod.splits)

lemma generate_green_message_same:
  "same_but_categories sc (snd (generate_green_message lower sc t g r))"
  using detect_category_same [of sc "lower t"]
  by (auto simp: generate_green_message_def Let_def split: prod.splits option.splits)

lemma grade_of_score_valid: "grade_of_score x \<in> set valid_grades"
  by (simp add: grade_of_score_def valid_grades_def)

lemma score_with_rules_valid: "fst (score_with_rules lower sc t) \<in> set valid_grades"
  by (simp add: score_with_rules_def Let_def grade_of_score_valid split: prod.splits)

lemma estimate_co2_impact_ok:
  "g \<in> set valid_grades \<Longrightarrow> \<exists>co2. fst (estimate_co2_impact lower sc t g) = Inr co2"
  by (auto simp: estimate_co2_impact_def Let_def valid_grades_def base_impact_def
      split: prod.splits)

lemma messages_nonempty: "map_of messages k = Some ms \<Longrightarrow> ms \<noteq> []"
  by (auto simp: messages_def split: if_splits)

lemma generate_green_message_ok:
  "\<exists>msg. fst (generate_green_message lower sc t g r) = Inr msg"
proof -
  have "map_of messages (S ''C'') \<noteq> None"
    by (simp add: messages_def S_def)
  then show ?thesis
    by (auto simp: generate_green_message_def Let_def random_choice_def
        dest: messages_nonempty split: prod.splits option.splits)
qed

lemma grade_sum_update:
  "map_of al k = Some n \<Longrightarrow> grade_sum (AList.update k (n + 1) al) = grade_sum al + 1"
  by (induction al) (auto simp: grade_sum_def)

lemma keys_update:
  "map_of al k = Some n \<Longrightarrow> map fst (AList.update k v al) = map fst al"
  by (induction al) auto

lemma choose_grader_same: "same_but_categories sc (snd (choose_grader lower sc t))"
  by (simp add: choose_grader_def score_with_model_same score_with_rules_same)

lemma build_result_ok:
  assumes "g \<in> set valid_grades"
  shows "\<exists>res sc'. build_result lower sc t g r now = (Inr res, sc') \<and> grade res = g \<and>
           same_but_categories sc sc'"
proof -
  define e4 where "e4 = estimate_co2_impact lower sc t g"
  define a5 where "a5 = assess_recyclability lower (snd e4) t"
  define m6 where "m6 = generate_green_message lower (snd a5) t g r"
  obtain co2 where co2: "fst e4 = Inr co2"
    using estimate_co2_impact_ok [OF assms] unfolding e4_def by blast
  obtain msg where msg: "fst m6 = Inr msg"
    using generate_green_message_ok unfolding m6_def by blast
  have "same_but_categories sc (snd m6)"
    unfolding m6_def a5_def e4_def
    by (blast intro: same_trans estimate_co2_impact_same assess_recyclability_same
        generate_green_message_same)
  moreover have "build_result lower sc t g r now =
        (Inr \<lparr> grade = g, co2_impact = co2, recyclable = fst a5,
               renewable_materials = assess_renewable_materials lower t,
               packaging_score = assess_packaging lower t,
               supply_chain_score = assess_supply_chain lower t, green_message = msg,
               confidence = calculate_confidence lower t, timestamp = now \<rparr>, snd m6)"
    using co2 msg
    unfolding build_result_def Let_def case_prod_beta e4_def [symmetric]
    by (simp add: a5_def [symmetric] m6_def [symmetric])
  ultimately show ?thesis
    by simp
qed

text \<open>
  One call of the \<open>try\<close> body on a scorer whose grade counters have the five letters as keys:
  either the grade is not one of the letters and the body raises \<open>KeyError\<close> with only the
  call counter incremented, or it returns a result and exactly one grade counter has been
  incremented as well.
\<close>

lemma score_product_try_step:
  fixes lower :: "pystr \<Rightarrow> pystr" and sc :: "('x, 'p) scorer" and t :: pystr
    and r :: nat and now :: pystr
  assumes keys: "grade_keys sc"
  defines "gp \<equiv> choose_grader lower (sc\<lparr>total_predictions := total_predictions sc + 1\<rparr>) t"
  defines "out \<equiv> score_product_try lower sc t r now"
  shows "(fst gp \<notin> set valid_grades \<and> fst out = Inl (KeyError (fst gp)) \<and>
            grade_sum (grade_distribution (snd out)) = grade_sum (grade_distribution sc))
         \<or> (fst gp \<in> set valid_grades \<and>
             (\<exists>res. fst out = Inr res \<and> grade res = fst gp) \<and>
             grade_sum (grade_distribution (snd out)) = grade_sum (grade_distribution sc) + 1)"
    and "grade_keys (snd out)"
    and "total_predictions (snd out) = total_predictions sc + 1"
    and "model (snd out) = model sc"
    and "vectorizer (snd out) = vectorizer sc"
    and "label_encoder (snd out) = label_encoder sc"
proof -
  define sc1 where "sc1 = sc\<lparr>total_predictions := total_predictions sc + 1\<rparr>"
  define g where "g = fst gp"
  define sc2 where "sc2 = snd gp"
  have s12: "same_but_categories sc1 sc2"
    unfolding sc2_def gp_def sc1_def by (rule choose_grader_same)
  have gd2: "grade_distribution sc2 = grade_distribution sc"
    using s12 by (simp add: same_but_categories_def sc1_def)
  have keys2: "map fst (grade_distribution sc2) = valid_grades"
    using keys gd2 by (simp add: grade_keys_def)
  have fields2: "total_predictions sc2 = total_predictions sc + 1" "model sc2 = model sc"
    "vectorizer sc2 = vectorizer sc" "label_encoder sc2 = label_encoder sc"
    using s12 by (simp_all add: same_but_categories_def sc1_def)
  have unfold: "out = (case map_of (grade_distribution sc2) g of
           None \<Rightarrow> (Inl (KeyError g), sc2)
         | Some n \<Rightarrow>
             build_result lower
               (sc2\<lparr>grade_distribution := AList.update g (n + 1) (grade_distribution sc2)\<rparr>)
               t g r now)"
    unfolding out_def score_product_try_def Let_def case_prod_beta g_def sc2_def gp_def
    by (rule refl)
  have all: "((g \<notin> set valid_grades \<and> fst out = Inl (KeyError g) \<and>
            grade_sum (grade_distribution (snd out)) = grade_sum (grade_distribution sc))
         \<or> (g \<in> set valid_grades \<and>
             (\<exists>res. fst out = Inr res \<and> grade res = g) \<and>
             grade_sum (grade_distribution (snd out)) = grade_sum (grade_distribution sc) + 1))
      \<and> grade_keys (snd out)
      \<and> total_predictions (snd out) = total_predictions sc + 1
      \<and> model (snd out) = model sc
      \<and> vectorizer (snd out) = vectorizer sc
      \<and> label_encoder (snd out) = label_encoder sc"
  proof (cases "map_of (grade_distribution sc2) g")
    case None
    then have "g \<notin> set valid_grades"
      using keys2 by (metis map_of_eq_None_iff set_map)
    moreover have "out = (Inl (KeyError g), sc2)"
      using None unfold by simp
    ultimately show ?thesis
      using gd2 keys2 fields2 by (simp add: grade_keys_def)
  next
    case (Some n)
    then have gv: "g \<in> set valid_grades"
      using keys2 by (metis map_of_SomeD set_map image_eqI fst_conv)
    define sc3 where
      "sc3 = sc2\<lparr>grade_distribution := AList.update g (n + 1) (grade_distribution sc2)\<rparr>"
    obtain res sc' where res: "build_result lower sc3 t g r now = (Inr res, sc')"
      "grade res = g" "same_but_categories sc3 sc'"
      using build_result_ok [OF gv] by blast
    have o: "out = (Inr res, sc')"
      using Some unfold res(1) by (simp add: sc3_def)
    have gd6: "grade_distribution sc' = AList.update g (n + 1) (grade_distribution sc)"
      using res(3) gd2 by (simp add: same_but_categories_def sc3_def)
    have sum6: "grade_sum (grade_distribution sc') = grade_sum (grade_distribution sc) + 1"
      unfolding gd6 using Some gd2 grade_sum_update [of "grade_distribution sc" g n] by simp
    have keys6: "grade_keys sc'"
      unfolding grade_keys_def gd6 using Some gd2 keys2 by (simp add: keys_update)
    have fields6: "total_predictions sc' = total_predictions sc + 1"
      "model sc' = model sc" "vectorizer sc' = vectorizer sc"
      "label_encoder sc' = label_encoder sc"
      using res(3) fields2 by (simp_all add: same_but_categories_def sc3_def)
    show ?thesis
      using gv sum6 keys6 fields6 res(2) by (simp add: o)
  qed
  show "(fst gp \<notin> set valid_grades \<and> fst out = Inl (KeyError (fst gp)) \<and>
            grade_sum (grade_distribution (snd out)) = grade_sum (grade_distribution sc))
         \<or> (fst gp \<in> set valid_grades \<and>
             (\<exists>res. fst out = Inr res \<and> grade res = fst gp) \<and>
             grade_sum (grade_distribution (snd out)) = grade_sum (grade_distribution sc) + 1)"
    using all unfolding g_def by blast
  show "grade_keys (snd out)" using all by blast
  show "total_predictions (snd out) = total_predictions sc + 1" using all by blast
  show "model (snd out) = model sc" using all by blast
  show "vectorizer (snd out) = vectorizer sc" using all by blast
  show "label_encoder (snd out) = label_encoder sc" using all by blast
qed

subsection \<open>The facade\<close>

lemma score_product_snd:
  "snd (score_product lower sc t r now) = snd (score_product_try lower sc t r now)"
  by (simp add: score_product_def split: prod.splits sum.splits)

lemma score_product_fst:
  "fst (score_product lower sc t r now) =
     (case fst (score_product_try lower sc t r now) of
        Inl e \<Rightarrow> get_default_score now | Inr res \<Rightarrow> res)"
  by (simp add: score_product_def split: prod.splits sum.splits)

lemma stub_try:
  "label \<notin> set valid_grades \<Longrightarrow>
   fst (score_product_try lower (stub_scorer label) t r now) = Inl (KeyError label)"
  using score_product_try_step(1) [of "stub_scorer label" lower t r now]
  by (auto simp: stub_scorer_def init_def grade_keys_def valid_grades_def choose_grader_def
      score_with_model_def model_pipeline_def bind_def)

text \<open>
  C2. \<open>score_product\<close> is total, for every title: whenever the body of its \<open>try\<close> raises,
  the result is the fixed default (grade C, CO2 impact, packaging and supply chain
  \<open>Unknown\<close>, not recyclable, no renewable materials, the apology message, confidence 0.1),
  otherwise it is the result built by the body. On a scorer whose grade counters have the
  keys of \<open>__init__\<close> the grade of the result is one of the five letters, and the body
  raises exactly when the grader's label is not one of them.
\<close>

theorem score_product_never_raises:
  "(\<forall>e sc'. score_product_try lower sc t r now = (Inl e, sc') \<longrightarrow>
            score_product lower sc t r now = (get_default_score now, sc'))
       \<and> (\<forall>res sc'. score_product_try lower sc t r now = (Inr res, sc') \<longrightarrow>
            score_product lower sc t r now = (res, sc'))
       \<and> get_default_score now =
           \<lparr> grade = S ''C'', co2_impact = S ''Unknown'', recyclable = False,
             renewable_materials = False, packaging_score = S ''Unknown'',
             supply_chain_score = S ''Unknown'',
             green_message = S ''Unable to assess sustainability. Please try again.'',
             confidence = fround (1 / 10), timestamp = now \<rparr>
       \<and> (grade_keys sc \<longrightarrow>
            grade (fst (score_product lower sc t r now)) \<in> set valid_grades)
       \<and> (grade_keys sc \<longrightarrow>
            ((\<exists>e. fst (score_product_try lower sc t r now) = Inl e) \<longleftrightarrow>
             fst (choose_grader lower (sc\<lparr>total_predictions := total_predictions sc + 1\<rparr>) t)
               \<notin> set valid_grades))"
proof (intro conjI impI)
  assume keys: "grade_keys sc"
  note step = score_product_try_step(1) [OF keys, of lower t r now]
  show "grade (fst (score_product lower sc t r now)) \<in> set valid_grades"
    using step by (auto simp: score_product_fst get_default_score_def valid_grades_def)
next
  assume keys: "grade_keys sc"
  note step = score_product_try_step(1) [OF keys, of lower t r now]
  show "(\<exists>e. fst (score_product_try lower sc t r now) = Inl e) \<longleftrightarrow>
            fst (choose_grader lower (sc\<lparr>total_predictions := total_predictions sc + 1\<rparr>) t)
              \<notin> set valid_grades"
    using step by auto
qed (simp_all add: score_product_def get_default_score_def)

theorem score_product_never_raises_witness:
  "grade_keys (stub_scorer (S ''F''))
   \<and> fst (score_product_try ascii_lower (stub_scorer (S ''F'')) (S ''tv'') 0 []) = Inl (KeyError (S ''F''))
   \<and> fst (score_product ascii_lower (stub_scorer (S ''F'')) (S ''tv'') 0 []) = get_default_score []"
proof -
  have k: "grade_keys (stub_scorer (S ''F''))"
    by (simp add: grade_keys_def stub_scorer_def init_def valid_grades_def)
  have f: "S ''F'' \<notin> set valid_grades"
    by (simp add: valid_grades_def S_def)
  obtain sc' where t: "score_product_try ascii_lower (stub_scorer (S ''F'')) (S ''tv'') 0 [] =
      (Inl (KeyError (S ''F'')), sc')"
    using stub_try [OF f, of ascii_lower "S ''tv''" 0 "[]"]
    by (cases "score_product_try ascii_lower (stub_scorer (S ''F'')) (S ''tv'') 0 []") simp
  have "score_product ascii_lower (stub_scorer (S ''F'')) (S ''tv'') 0 [] = (get_default_score [], sc')"
    using score_product_never_raises
      [where lower = ascii_lower and sc = "stub_scorer (S ''F'')" and t = "S ''tv''"
        and r = 0 and now = "[]"] t
    by blast
  then show ?thesis
    using k t by simp
qed

subsection \<open>Model-based grading\<close>

lemma build_result_same:
  "same_but_categories sc (snd (build_result lower sc t g r now))"
proof -
  define e4 where "e4 = estimate_co2_impact lower sc t g"
  define a5 where "a5 = assess_recyclability lower (snd e4) t"
  define m6 where "m6 = generate_green_message lower (snd a5) t g r"
  have s4: "same_but_categories sc (snd e4)"
    unfolding e4_def by (rule estimate_co2_impact_same)
  have s6: "same_but_categories sc (snd m6)"
    unfolding m6_def a5_def e4_def
    by (blast intro: same_trans estimate_co2_impact_same assess_recyclability_same
        generate_green_message_same)
  have "snd (build_result lower sc t g r now) = snd e4 \<or>
        snd (build_result lower sc t g r now) = snd m6"
    unfolding build_result_def Let_def case_prod_beta e4_def [symmetric]
    by (cases "fst e4"; cases "fst m6") (simp_all add: a5_def [symmetric] m6_def [symmetric])
  then show ?thesis
    using s4 s6 by auto
qed

lemma score_product_same_artifacts:
  "model (snd (score_product lower sc t r now)) = model sc
   \<and> vectorizer (snd (score_product lower sc t r now)) = vectorizer sc
   \<and> label_encoder (snd (score_product lower sc t r now)) = label_encoder sc"
proof -
  define sc1 where "sc1 = sc\<lparr>total_predictions := total_predictions sc + 1\<rparr>"
  define gp where "gp = choose_grader lower sc1 t"
  have s12: "same_but_categories sc1 (snd gp)"
    unfolding gp_def by (rule choose_grader_same)
  have unfold: "score_product_try lower sc t r now =
      (case map_of (grade_distribution (snd gp)) (fst gp) of
           None \<Rightarrow> (Inl (KeyError (fst gp)), snd gp)
         | Some n \<Rightarrow>
             build_result lower
               ((snd gp)\<lparr>grade_distribution :=
                           AList.update (fst gp) (n + 1) (grade_distribution (snd gp))\<rparr>)
               t (fst gp) r now)"
    unfolding score_product_try_def Let_def case_prod_beta gp_def sc1_def
    by (rule refl)
  show ?thesis
  proof (cases "map_of (grade_distribution (snd gp)) (fst gp)")
    case None
    then show ?thesis
      using s12 by (simp add: score_product_snd unfold same_but_categories_def sc1_def)
  next
    case (Some n)
    then show ?thesis
      using s12 build_result_same [of "(snd gp)\<lparr>grade_distribution :=
          AList.update (fst gp) (n + 1) (grade_distribution (snd gp))\<rparr>" lower t "fst gp" r now]
      by (simp add: score_product_snd unfold same_but_categories_def sc1_def)
  qed
qed

lemma score_with_rules_grade:
  "fst (score_with_rules lower sc t) = fst (score_with_rules lower sc' t)"
  using detect_category_of [of sc "lower t"] detect_category_of [of sc' "lower t"]
  by (auto simp: score_with_rules_def Let_def split: prod.splits)

lemma model_pipeline_counter:
  "model_pipeline lower (sc\<lparr>total_predictions := n\<rparr>) t = model_pipeline lower sc t"
  by (simp add: model_pipeline_def)

lemma score_with_model_success:
  assumes "vectorizer sc = Some transform" "model sc = Some predict"
    "label_encoder sc = Some inverse_transform"
    and "transform (prepare_features lower [product_title]) = Inr X_tfidf"
    and "predict X_tfidf = Inr (prediction # rest)"
    and "inverse_transform [prediction] = Inr (g # gs)"
  shows "score_with_model lower sc product_title = (g, sc)"
  using assms by (simp add: score_with_model_def model_pipeline_def bind_def)

text \<open>
  C5. On a scorer with the three artifacts loaded, when the vectorizer's \<open>transform\<close> raises,
  or the classifier's \<open>predict\<close> raises or returns no prediction, or the decoder's
  \<open>inverse_transform\<close> raises or returns no label, \<open>_score_with_model\<close> returns what
  \<open>_score_with_rules\<close> returns for the title, and \<open>score_product\<close> reports the rule-based
  grade; the three artifacts of the scorer are the same after the call as before, so the
  next call uses the model again.
\<close>

theorem score_with_model_falls_back:
  assumes loaded: "vectorizer sc = Some transform" "model sc = Some predict"
      "label_encoder sc = Some inverse_transform"
    and stage_raises:
      "(\<exists>e. transform (prepare_features lower [product_title]) = Inl e)
       \<or> (\<exists>X_tfidf e. transform (prepare_features lower [product_title]) = Inr X_tfidf
             \<and> predict X_tfidf = Inl e)
       \<or> (\<exists>X_tfidf. transform (prepare_features lower [product_title]) = Inr X_tfidf
             \<and> predict X_tfidf = Inr [])
       \<or> (\<exists>X_tfidf prediction rest e.
             transform (prepare_features lower [product_title]) = Inr X_tfidf
             \<and> predict X_tfidf = Inr (prediction # rest)
             \<and> inverse_transform [prediction] = Inl e)
       \<or> (\<exists>X_tfidf prediction rest.
             transform (prepare_features lower [product_title]) = Inr X_tfidf
             \<and> predict X_tfidf = Inr (prediction # rest)
             \<and> inverse_transform [prediction] = Inr [])"
  shows "score_with_model lower sc product_title = score_with_rules lower sc product_title
       \<and> (grade_keys sc \<longrightarrow>
            grade (fst (score_product lower sc product_title r now)) =
              fst (score_with_rules lower sc product_title))
       \<and> model (snd (score_product lower sc product_title r now)) = model sc
       \<and> vectorizer (snd (score_product lower sc product_title r now)) = vectorizer sc
       \<and> label_encoder (snd (score_product lower sc product_title r now)) = label_encoder sc"
proof (intro conjI impI)
  have "\<exists>e. model_pipeline lower sc product_title = Inl e"
    using stage_raises loaded by (auto simp: model_pipeline_def bind_def)
  then obtain e where raised: "model_pipeline lower sc product_title = Inl e"
    by blast
  show "score_with_model lower sc product_title = score_with_rules lower sc product_title"
    using raised by (simp add: score_with_model_def)
  assume keys: "grade_keys sc"
  define sc1 where "sc1 = sc\<lparr>total_predictions := total_predictions sc + 1\<rparr>"
  have "model_pipeline lower sc1 product_title = Inl e"
    using raised by (simp add: sc1_def model_pipeline_counter)
  then have "choose_grader lower sc1 product_title = score_with_rules lower sc1 product_title"
    using loaded by (simp add: choose_grader_def score_with_model_def sc1_def)
  then have g: "fst (choose_grader lower sc1 product_title) = fst (score_with_rules lower sc product_title)"
    using score_with_rules_grade [of lower sc1 product_title sc] by simp
  have "fst (score_with_rules lower sc product_title) \<in> set valid_grades"
    by (rule score_with_rules_valid)
  then show "grade (fst (score_product lower sc product_title r now)) =
      fst (score_with_rules lower sc product_title)"
    using score_product_try_step(1) [of sc lower product_title r now] keys g
    by (auto simp: sc1_def score_product_fst)
qed (simp_all add: score_product_same_artifacts)

theorem score_with_model_falls_back_witness:
  "score_with_model ascii_lower broken_scorer (S ''tv'') =
     score_with_rules ascii_lower broken_scorer (S ''tv'')
   \<and> grade (fst (score_product ascii_lower broken_scorer (S ''tv'') 0 [])) =
       fst (score_with_rules ascii_lower broken_scorer (S ''tv''))
   \<and> model (snd (score_product ascii_lower broken_scorer (S ''tv'') 0 [])) = model broken_scorer
   \<and> score_with_model ascii_lower broken_classifier (S ''tv'') =
       score_with_rules ascii_lower broken_classifier (S ''tv'')
   \<and> grade (fst (score_product ascii_lower broken_classifier (S ''tv'') 0 [])) =
       fst (score_with_rules ascii_lower broken_classifier (S ''tv''))
   \<and> score_with_model ascii_lower empty_classifier (S ''tv'') =
       score_with_rules ascii_lower empty_classifier (S ''tv'')
   \<and> grade (fst (score_product ascii_lower empty_classifier (S ''tv'') 0 [])) =
       fst (score_with_rules ascii_lower empty_classifier (S ''tv''))
   \<and> score_with_model ascii_lower broken_decoder (S ''tv'') =
       score_with_rules ascii_lower broken_decoder (S ''tv'')
   \<and> grade (fst (score_product ascii_lower broken_decoder (S ''tv'') 0 [])) =
       fst (score_with_rules ascii_lower broken_decoder (S ''tv''))"
proof -
  have keys: "grade_keys broken_scorer" "grade_keys broken_classifier"
    "grade_keys empty_classifier" "grade_keys broken_decoder"
    by (simp_all add: broken_scorer_def broken_classifier_def empty_classifier_def
        broken_decoder_def grade_keys_def init_def valid_grades_def)
  have a: "score_with_model ascii_lower broken_scorer (S ''tv'') =
       score_with_rules ascii_lower broken_scorer (S ''tv'')
     \<and> (grade_keys broken_scorer \<longrightarrow>
          grade (fst (score_product ascii_lower broken_scorer (S ''tv'') 0 [])) =
            fst (score_with_rules ascii_lower broken_scorer (S ''tv'')))
     \<and> model (snd (score_product ascii_lower broken_scorer (S ''tv'') 0 [])) = model broken_scorer
     \<and> vectorizer (snd (score_product ascii_lower broken_scorer (S ''tv'') 0 [])) = vectorizer broken_scorer
     \<and> label_encoder (snd (score_product ascii_lower broken_scorer (S ''tv'') 0 [])) = label_encoder broken_scorer"
    by (rule score_with_model_falls_back
        [where transform = "\<lambda>features. Inl (ArtifactError 0)" and predict = "\<lambda>X. Inr [()]"
          and inverse_transform = "\<lambda>predictions. Inr [S ''A'']"])
      (simp_all add: broken_scorer_def)
  have b: "score_with_model ascii_lower broken_classifier (S ''tv'') =
       score_with_rules ascii_lower broken_classifier (S ''tv'')
     \<and> (grade_keys broken_classifier \<longrightarrow>
          grade (fst (score_product ascii_lower broken_classifier (S ''tv'') 0 [])) =
            fst (score_with_rules ascii_lower broken_classifier (S ''tv'')))
     \<and> model (snd (score_product ascii_lower broken_classifier (S ''tv'') 0 [])) = model broken_classifier
     \<and> vectorizer (snd (score_product ascii_lower broken_classifier (S ''tv'') 0 [])) = vectorizer broken_classifier
     \<and> label_encoder (snd (score_product ascii_lower broken_classifier (S ''tv'') 0 [])) = label_encoder broken_classifier"
    by (rule score_with_model_falls_back
        [where transform = "\<lambda>features. Inr ()" and predict = "\<lambda>X. Inl (ArtifactError 1)"
          and inverse_transform = "\<lambda>predictions. Inr [S ''A'']"])
      (simp_all add: broken_classifier_def)
  have c: "score_with_model ascii_lower empty_classifier (S ''tv'') =
       score_with_rules ascii_lower empty_classifier (S ''tv'')
     \<and> (grade_keys empty_classifier \<longrightarrow>
          grade (fst (score_product ascii_lower empty_classifier (S ''tv'') 0 [])) =
            fst (score_with_rules ascii_lower empty_classifier (S ''tv'')))
     \<and> model (snd (score_product ascii_lower empty_classifier (S ''tv'') 0 [])) = model empty_classifier
     \<and> vectorizer (snd (score_product ascii_lower empty_classifier (S ''tv'') 0 [])) = vectorizer empty_classifier
     \<and> label_encoder (snd (score_product ascii_lower empty_classifier (S ''tv'') 0 [])) = label_encoder empty_classifier"
    by (rule score_with_model_falls_back
        [where transform = "\<lambda>features. Inr ()" and predict = "\<lambda>X. Inr []"
          and inverse_transform = "\<lambda>predictions. Inr [S ''A'']"])
      (simp_all add: empty_classifier_def)
  have d: "score_with_model ascii_lower broken_decoder (S ''tv'') =
       score_with_rules ascii_lower broken_decoder (S ''tv'')
     \<and> (grade_keys broken_decoder \<longrightarrow>
          grade (fst (score_product ascii_lower broken_decoder (S ''tv'') 0 [])) =
            fst (score_with_rules ascii_lower broken_decoder (S ''tv'')))
     \<and> model (snd (score_product ascii_lower broken_decoder (S ''tv'') 0 [])) = model broken_decoder
     \<and> vectorizer (snd (score_product ascii_lower broken_decoder (S ''tv'') 0 [])) = vectorizer broken_decoder
     \<and> label_encoder (snd (score_product ascii_lower broken_decoder (S ''tv'') 0 [])) = label_encoder broken_decoder"
    by (rule score_with_model_falls_back
        [where transform = "\<lambda>features. Inr ()" and predict = "\<lambda>X. Inr [()]"
          and inverse_transform = "\<lambda>predictions. Inl (ArtifactError 2)"])
      (simp_all add: broken_decoder_def)
  show ?thesis
    using keys a b c d by blast
qed

subsection \<open>Counters\<close>

lemma run_counts:
  "grade_keys sc \<Longrightarrow>
     grade_keys (snd (run lower sc calls))
     \<and> total_predictions (snd (run lower sc calls)) = total_predictions sc + length calls
     \<and> grade_sum (grade_distribution (snd (run lower sc calls))) + failures lower sc calls =
         grade_sum (grade_distribution sc) + length calls"
proof (induction calls arbitrary: sc)
  case Nil
  then show ?case by simp
next
  case (Cons call calls)
  obtain t r now where call: "call = (t, r, now)"
    by (cases call)
  define out where "out = score_product_try lower sc t r now"
  note step = score_product_try_step [OF Cons.prems, of lower t r now, folded out_def]
  have run: "snd (run lower sc (call # calls)) = snd (run lower (snd out) calls)"
    using score_product_snd [of lower sc t r now]
    by (simp add: call out_def case_prod_beta Let_def)
  have fail: "failures lower sc (call # calls) =
      (case fst out of Inl e \<Rightarrow> 1 | Inr res \<Rightarrow> 0) + failures lower (snd out) calls"
    by (simp add: call out_def split: prod.splits sum.splits)
  have one: "grade_sum (grade_distribution (snd out)) + (case fst out of Inl e \<Rightarrow> 1 | Inr res \<Rightarrow> 0)
      = grade_sum (grade_distribution sc) + 1"
    using step(1) by auto
  note ih = Cons.IH [OF step(2)]
  show ?case
    unfolding run fail using ih one step(3) by simp
qed

lemma init_keys: "grade_keys (init\<lparr>model := m, vectorizer := v, label_encoder := l\<rparr>)"
  by (simp add: grade_keys_def init_def valid_grades_def)

text \<open>
  C10. After any sequence of calls of \<open>score_product\<close> on a scorer fresh from \<open>__init__\<close>,
  with or without a loaded artifact, \<open>total_predictions\<close> is the number of calls, and the sum
  of the grade counters that \<open>get_stats\<close> reports is \<open>total_predictions\<close> less the number of
  calls that ended in the default result; so the sum is at most \<open>total_predictions\<close>, and
  less as soon as one call failed.
\<close>

theorem grade_counters_at_most_total:
  "(case get_stats (snd (run lower (init\<lparr>model := m, vectorizer := v, label_encoder := l\<rparr>) calls)) of
      (predictions, counts, model_type) \<Rightarrow>
        predictions = length calls
        \<and> grade_sum counts + failures lower (init\<lparr>model := m, vectorizer := v, label_encoder := l\<rparr>) calls
            = predictions
        \<and> grade_sum counts \<le> predictions
        \<and> (0 < failures lower (init\<lparr>model := m, vectorizer := v, label_encoder := l\<rparr>) calls
             \<longrightarrow> grade_sum counts < predictions))"
proof -
  have "grade_sum (grade_distribution (init\<lparr>model := m, vectorizer := v, label_encoder := l\<rparr>)) = 0"
    "total_predictions (init\<lparr>model := m, vectorizer := v, label_encoder := l\<rparr>) = 0"
    by (simp_all add: init_def grade_sum_def)
  then show ?thesis
    using run_counts [OF init_keys [where m = m and v = v and l = l],
        where lower = lower and calls = calls]
    by (simp add: get_stats_def)
qed

theorem grade_counters_at_most_total_witness:
  "failures ascii_lower (stub_scorer (S ''F'')) [(S ''tv'', 0, [])] = 1
   \<and> (case get_stats (snd (run ascii_lower (stub_scorer (S ''F'')) [(S ''tv'', 0, [])])) of
        (predictions, counts, model_type) \<Rightarrow> predictions = 1 \<and> grade_sum counts = 0 \<and> grade_sum counts < predictions)"
proof -
  have f: "S ''F'' \<notin> set valid_grades"
    by (simp add: valid_grades_def S_def)
  obtain sc' where "score_product_try ascii_lower (stub_scorer (S ''F'')) (S ''tv'') 0 [] =
      (Inl (KeyError (S ''F'')), sc')"
    using stub_try [OF f, of ascii_lower "S ''tv''" 0 "[]"]
    by (cases "score_product_try ascii_lower (stub_scorer (S ''F'')) (S ''tv'') 0 []") simp
  then have "failures ascii_lower (stub_scorer (S ''F'')) [(S ''tv'', 0, [])] = 1"
    by simp
  then show ?thesis
    using grade_counters_at_most_total
      [where lower = ascii_lower and m = "Some (\<lambda>X. Inr [()])"
        and v = "Some (\<lambda>features. Inr ())" and l = "Some (\<lambda>predictions. Inr [S ''F''])"
        and calls = "[(S ''tv'', 0, [])]"]
    by (simp add: stub_scorer_def split: prod.splits)
qed

subsection \<open>CO2 estimate\<close>

lemma str_nat_digits: "str_nat n \<noteq> [] \<and> (\<forall>c \<in> set (str_nat n). is_digit c)"
proof (induction n rule: str_nat.induct)
  case (1 n)
  show ?case
  proof (cases "n < 10")
    case True
    then show ?thesis
      by (subst str_nat.simps, subst (2) str_nat.simps) (simp add: is_digit_def)
  next
    case False
    have "n mod 10 < 10" by simp
    then have "is_digit (48 + n mod 10)"
      unfolding is_digit_def by linarith
    then show ?thesis
      using False 1
      by (subst str_nat.simps, subst (2) str_nat.simps) simp
  qed
qed

lemma digits_value_snoc: "digits_value (ds @ [c]) = 10 * digits_value ds + (c - 48)"
  by (simp add: digits_value_def)

lemma digits_value_str_nat: "digits_value (str_nat n) = n"
proof (induction n rule: str_nat.induct)
  case (1 n)
  show ?case
  proof (cases "n < 10")
    case True
    then show ?thesis
      by (subst str_nat.simps) (simp add: digits_value_def)
  next
    case False
    then show ?thesis
      using 1 by (subst str_nat.simps) (simp add: digits_value_snoc)
  qed
qed

lemma format_1f_shape:
  assumes "0 \<le> x"
  shows "\<exists>ds d. format_1f x = ds @ [46, d] \<and> ds \<noteq> [] \<and> (\<forall>c \<in> set ds. is_digit c) \<and> is_digit d
           \<and> int (10 * digits_value ds + (d - 48)) = rne (x * 10)"
proof -
  define n where "n = nat (rne (x * 10))"
  have "0 \<le> rne (x * 10)"
    using assms by (intro rne_ge) simp
  then have n: "int n = rne (x * 10)"
    by (simp add: n_def)
  have "n mod 10 < 10" by simp
  then have d: "is_digit (48 + n mod 10)"
    unfolding is_digit_def by linarith
  have f: "format_1f x = str_nat (n div 10) @ [46, 48 + n mod 10]"
    using assms by (simp add: format_1f_def n_def Let_def)
  have "10 * digits_value (str_nat (n div 10)) + (48 + n mod 10 - 48) = n"
    by (simp add: digits_value_str_nat)
  then show ?thesis
    using f d n str_nat_digits [of "n div 10"] by metis
qed

lemma co2_multiplier_lookup:
  "(case map_of co2_category_multipliers (category_of t) of Some m \<Rightarrow> m | None \<Rightarrow> fround 1)
     = spec_co2_multiplier (category_of t)"
  using category_of_cases [of t]
  by (auto simp: co2_category_multipliers_def spec_co2_multiplier_def S_def)

lemma base_impact_lookup:
  "g \<in> set valid_grades \<Longrightarrow> map_of base_impact g = Some (spec_base_impact g)"
  by (auto simp: valid_grades_def base_impact_def spec_base_impact_def S_def)

lemma co2_impact_nonneg: "0 \<le> fmul (spec_base_impact g) (spec_co2_multiplier c)"
proof -
  have "0 \<le> spec_base_impact g"
    by (simp add: spec_base_impact_def fround_nonneg)
  moreover have "0 \<le> spec_co2_multiplier c"
    by (simp add: spec_co2_multiplier_def fround_nonneg)
  ultimately show ?thesis
    unfolding fmul_def by (intro fround_nonneg) simp
qed

text \<open>
  C6, as amended. For every title and every grade A to E the CO2 estimate is the grade's
  base value (1.2, 2.5, 4.8, 8.1, 12.5) times the CO2 multiplier of the detected category
  (1.0 for \<open>other\<close>), as a float product, printed with one decimal (digits, a point, one
  digit, reading as the product rounded half-even to tenths) and followed by the unit text
  of the f-string, which begins with \<open> kg CO\<close> and is longer than \<open> kg\<close>.
\<close>

theorem estimate_co2_impact_format:
  assumes "g \<in> set valid_grades"
  shows "fst (estimate_co2_impact lower sc product_title g) =
           Inr (format_1f (fmul (spec_base_impact g)
                                (spec_co2_multiplier (category_of (lower product_title))))
                @ co2_unit)
       \<and> prefix (S '' kg CO'') co2_unit \<and> co2_unit \<noteq> S '' kg''
       \<and> (\<exists>ds d. format_1f (fmul (spec_base_impact g)
                                  (spec_co2_multiplier (category_of (lower product_title))))
                    = ds @ [46, d]
               \<and> ds \<noteq> [] \<and> (\<forall>c \<in> set ds. is_digit c) \<and> is_digit d
               \<and> int (10 * digits_value ds + (d - 48)) =
                   rne (fmul (spec_base_impact g)
                             (spec_co2_multiplier (category_of (lower product_title))) * 10))"
proof (intro conjI)
  obtain c sc' where d: "detect_category sc (lower product_title) = (c, sc')"
    by (cases "detect_category sc (lower product_title)")
  then have c: "c = category_of (lower product_title)"
    using detect_category_of [of sc "lower product_title"] by simp
  show "fst (estimate_co2_impact lower sc product_title g) =
           Inr (format_1f (fmul (spec_base_impact g)
                                (spec_co2_multiplier (category_of (lower product_title))))
                @ co2_unit)"
    unfolding estimate_co2_impact_def Let_def d
    by (simp add: base_impact_lookup [OF assms] c co2_multiplier_lookup)
next
  show "prefix (S '' kg CO'') co2_unit"
    by (simp add: co2_unit_def)
next
  show "co2_unit \<noteq> S '' kg''"
    by (simp add: co2_unit_def S_def)
next
  show "\<exists>ds d. format_1f (fmul (spec_base_impact g)
                                  (spec_co2_multiplier (category_of (lower product_title))))
                    = ds @ [46, d]
               \<and> ds \<noteq> [] \<and> (\<forall>c \<in> set ds. is_digit c) \<and> is_digit d
               \<and> int (10 * digits_value ds + (d - 48)) =
                   rne (fmul (spec_base_impact g)
                             (spec_co2_multiplier (category_of (lower product_title))) * 10)"
    by (rule format_1f_shape [OF co2_impact_nonneg])
qed

lemma example_co2_category: "category_of (ascii_lower (S ''Phone'')) = S ''electronics''"
  by (simp add: category_of_def category_keywords_def S_def ascii_lower_def is_upper_az_def)

lemma example_co2_number: "format_1f (fmul (fround (12 / 10)) (fround 3)) = S ''3.6''"
  by code_simp

lemma example_co2_text:
  "fst (estimate_co2_impact ascii_lower (init :: (unit, unit) scorer) (S ''Phone'') (S ''A'')) =
     Inr (S ''3.6 kg CO'' @ [226, 8218, 8218])"
proof -
  obtain c sc' where d: "detect_category (init :: (unit, unit) scorer) (ascii_lower (S ''Phone'')) = (c, sc')"
    by (cases "detect_category (init :: (unit, unit) scorer) (ascii_lower (S ''Phone''))")
  then have c: "c = S ''electronics''"
    using detect_category_of [of "init :: (unit, unit) scorer" "ascii_lower (S ''Phone'')"]
    by (simp add: example_co2_category)
  have b: "map_of base_impact (S ''A'') = Some (fround (12 / 10))"
    by (simp add: base_impact_def)
  have m: "map_of co2_category_multipliers (S ''electronics'') = Some (fround 3)"
    by (simp add: co2_category_multipliers_def)
  have "S ''3.6'' @ co2_unit = S ''3.6 kg CO'' @ [226, 8218, 8218]"
    by (simp add: co2_unit_def S_def)
  then show ?thesis
    unfolding estimate_co2_impact_def Let_def d
    using example_co2_number by (simp add: c b m)
qed

theorem estimate_co2_impact_unit_counterexample:
  "fst (estimate_co2_impact ascii_lower (init :: (unit, unit) scorer) (S ''Phone'') (S ''A'')) =
     Inr (S ''3.6 kg CO'' @ [226, 8218, 8218])
   \<and> fst (estimate_co2_impact ascii_lower (init :: (unit, unit) scorer) (S ''Phone'') (S ''A'')) \<noteq>
     Inr (S ''3.6 kg'')"
  by (simp add: example_co2_text) (simp add: S_def)

theorem estimate_co2_impact_format_witness:
  "S ''A'' \<in> set valid_grades
   \<and> fst (estimate_co2_impact ascii_lower (init :: (unit, unit) scorer) (S ''Phone'') (S ''A'')) =
       Inr (S ''3.6'' @ co2_unit)"
proof -
  have a: "S ''A'' \<in> set valid_grades"
    by (simp add: valid_grades_def)
  have "spec_base_impact (S ''A'') = fround (12 / 10)"
    by (simp add: spec_base_impact_def)
  moreover have "spec_co2_multiplier (S ''electronics'') = fround 3"
    by (simp add: spec_co2_multiplier_def)
  ultimately show ?thesis
    using a estimate_co2_impact_format [OF a, of ascii_lower "init :: (unit, unit) scorer" "S ''Phone''"]
      example_co2_number
    by (simp add: example_co2_category)
qed

end
